theory Spec2Isabelle
  imports Main
begin

section \<open>Horoscope store: rows, inputs, failures\<close>

text \<open>
  The request handlers of \<^verbatim>\<open>src/actions/index.ts\<close> over the three tables declared
  in the table configuration. A JavaScript \<^verbatim>\<open>Date\<close> is its number of milliseconds, a
  text column is a \<open>string\<close>, and an optional column or an optional input field is an
  \<open>option\<close>: \<open>None\<close> is \<^verbatim>\<open>undefined\<close> in an input and \<^verbatim>\<open>NULL\<close> in a row.
\<close>

type_synonym date = int

record profile =
  hp_id :: string
  hp_userId :: string
  hp_name :: "string option"
  hp_birthDate :: "date option"
  hp_birthTime :: "string option"
  hp_birthPlace :: "string option"
  hp_zodiacSign :: "string option"
  hp_preferredLanguage :: "string option"
  hp_notes :: "string option"
  hp_createdAt :: date
  hp_updatedAt :: date

record daily_horoscope =
  dh_id :: string
  dh_horoscopeDate :: date
  dh_zodiacSign :: string
  dh_language :: "string option"
  dh_generalText :: string
  dh_loveText :: "string option"
  dh_careerText :: "string option"
  dh_healthText :: "string option"
  dh_luckyNumber :: "string option"
  dh_luckyColor :: "string option"
  dh_mood :: "string option"
  dh_createdAt :: date

record horoscope_view =
  hv_id :: string
  hv_profileId :: "string option"
  hv_userId :: string
  hv_dailyHoroscopeId :: "string option"
  hv_viewedAt :: date
  hv_deviceInfo :: "string option"
  hv_createdAt :: date

datatype table_name = HoroscopeProfiles | DailyHoroscopes | HoroscopeViews

datatype store_op =
  OpSelect table_name | OpInsert table_name | OpUpdate table_name | OpDelete table_name

text \<open>
  The database handle \<^verbatim>\<open>db\<close>: the rows of each table in the order the store returns
  them, and the sequence of statements issued so far, so that "no store access" is a
  property of the state.
\<close>

record store =
  horoscopeProfiles :: "profile list"
  dailyHoroscopes :: "daily_horoscope list"
  horoscopeViews :: "horoscope_view list"
  accesses :: "store_op list"

datatype error_code = UNAUTHORIZED | NOT_FOUND | FORBIDDEN

text \<open>
  What a handler throws: an \<^verbatim>\<open>ActionError\<close> with its code and message, or an error
  of the store: a repeated primary key, a broken reference, or an update object with no
  key. The framework reports the store's errors as internal server errors.
\<close>

datatype thrown =
  ActionError error_code string
| PrimaryKeyViolation table_name
| ForeignKeyViolation
| NoValuesToSet

record user =
  user_id :: string

record locals =
  locals_user :: "user option"

record action_context =
  ctx_locals :: "locals option"

subsection \<open>Handler inputs, as the schemas parse them\<close>

record createProfile_input =
  cp_name :: "string option"
  cp_birthDate :: "date option"
  cp_birthTime :: "string option"
  cp_birthPlace :: "string option"
  cp_zodiacSign :: "string option"
  cp_preferredLanguage :: "string option"
  cp_notes :: "string option"

record updateProfile_input =
  up_id :: string
  up_name :: "string option"
  up_birthDate :: "date option"
  up_birthTime :: "string option"
  up_birthPlace :: "string option"
  up_zodiacSign :: "string option"
  up_preferredLanguage :: "string option"
  up_notes :: "string option"

record deleteProfile_input =
  dp_id :: string

record createDailyHoroscope_input =
  cd_horoscopeDate :: date
  cd_zodiacSign :: string
  cd_language :: "string option"
  cd_generalText :: string
  cd_loveText :: "string option"
  cd_careerText :: "string option"
  cd_healthText :: "string option"
  cd_luckyNumber :: "string option"
  cd_luckyColor :: "string option"
  cd_mood :: "string option"

record updateDailyHoroscope_input =
  ud_id :: string
  ud_horoscopeDate :: "date option"
  ud_zodiacSign :: "string option"
  ud_language :: "string option"
  ud_generalText :: "string option"
  ud_loveText :: "string option"
  ud_careerText :: "string option"
  ud_healthText :: "string option"
  ud_luckyNumber :: "string option"
  ud_luckyColor :: "string option"
  ud_mood :: "string option"

record getDailyHoroscope_input =
  gd_zodiacSign :: string
  gd_horoscopeDate :: "date option"
  gd_language :: "string option"

record listDailyHoroscopes_input =
  ld_zodiacSign :: "string option"
  ld_horoscopeDate :: "date option"
  ld_language :: "string option"

record logHoroscopeView_input =
  lv_profileId :: "string option"
  lv_dailyHoroscopeId :: "string option"
  lv_deviceInfo :: "string option"

subsection \<open>Handler payloads\<close>

record listProfiles_data =
  lp_items :: "profile list"
  lp_total :: nat

record createDailyHoroscope_data =
  cdd_id :: string
  cdd_ownerId :: string

record listDailyHoroscopes_data =
  ldd_items :: "daily_horoscope list"
  ldd_total :: nat

subsection \<open>The objects passed to \<^verbatim>\<open>set\<close>\<close>

text \<open>
  A key of the \<^verbatim>\<open>updates\<close> object is a field here: \<open>None\<close> when the key is not in
  the object, \<open>Some v\<close> when it is there with value \<open>v\<close>.
\<close>

record profile_updates =
  pu_updatedAt :: "date option"
  pu_name :: "string option"
  pu_birthDate :: "date option"
  pu_birthTime :: "string option"
  pu_birthPlace :: "string option"
  pu_zodiacSign :: "string option"
  pu_preferredLanguage :: "string option"
  pu_notes :: "string option"

record horoscope_updates =
  hu_horoscopeDate :: "date option"
  hu_zodiacSign :: "string option"
  hu_language :: "string option"
  hu_generalText :: "string option"
  hu_loveText :: "string option"
  hu_careerText :: "string option"
  hu_healthText :: "string option"
  hu_luckyNumber :: "string option"
  hu_luckyColor :: "string option"
  hu_mood :: "string option"

section \<open>JavaScript values\<close>

text \<open>
  \<^verbatim>\<open>if (s)\<close> on an optional string: \<^verbatim>\<open>undefined\<close> and the empty string are falsy.
  A \<^verbatim>\<open>Date\<close>, a row and the user object are truthy whenever they are there.
\<close>

fun truthy :: "string option \<Rightarrow> bool" where
  "truthy None = False"
| "truthy (Some s) = (s \<noteq> [])"

text \<open>\<^verbatim>\<open>rows[0]\<close>: \<^verbatim>\<open>undefined\<close> on the empty array.\<close>

fun at0 :: "'a list \<Rightarrow> 'a option" where
  "at0 [] = None"
| "at0 (x # _) = Some x"

section \<open>The record store\<close>

text \<open>
  \<^verbatim>\<open>eq(column, value)\<close> and \<^verbatim>\<open>and(...conditions)\<close>. On an optional column the value
  compared is \<open>Some v\<close>, so that a \<^verbatim>\<open>NULL\<close> never equals anything.
\<close>

definition eq :: "('r \<Rightarrow> 'a) \<Rightarrow> 'a \<Rightarrow> 'r \<Rightarrow> bool" where
  "eq column v = (\<lambda>row. column row = v)"

definition and_all :: "('r \<Rightarrow> bool) list \<Rightarrow> 'r \<Rightarrow> bool" where
  "and_all conditions = (\<lambda>row. list_all (\<lambda>c. c row) conditions)"

definition limit :: "nat option \<Rightarrow> 'r list \<Rightarrow> 'r list" where
  "limit n rows = (case n of None \<Rightarrow> rows | Some k \<Rightarrow> take k rows)"

definition logged :: "store_op \<Rightarrow> store \<Rightarrow> store" where
  "logged op s = s\<lparr>accesses := accesses s @ [op]\<rparr>"

text \<open>
  Modelled from the spec: the query builder and the database behind \<^verbatim>\<open>db\<close> are
  libraries outside the repository. Section 4.1 gives the contract: \<^verbatim>\<open>find(filter)\<close>
  returns the matching records, \<^verbatim>\<open>insert\<close>, \<^verbatim>\<open>update(filter, partialRecord)\<close> and
  \<^verbatim>\<open>delete(filter)\<close> act on the matching records, and filters are conjunctions of
  equalities. The constraints are those the table definitions declare: each \<^verbatim>\<open>id\<close> is
  a primary key, and \<^verbatim>\<open>profileId\<close> and \<^verbatim>\<open>dailyHoroscopeId\<close> of a view reference the
  \<^verbatim>\<open>id\<close> of a profile and of a horoscope. A statement that would break one of them
  raises an error and changes no row: an insert that repeats a primary key, an insert of
  a view whose non-NULL reference names no row, a delete of a profile that a view
  references. \<^verbatim>\<open>set\<close> with an object that has no key throws before any statement is
  issued. A select returns the matching rows in the order of the table. A \<^verbatim>\<open>where\<close>
  that is absent is \<open>None\<close>; \<^verbatim>\<open>limit(1)\<close> is \<open>Some 1\<close>.
\<close>

definition select_HoroscopeProfiles ::
  "(profile \<Rightarrow> bool) option \<Rightarrow> nat option \<Rightarrow> store \<Rightarrow> profile list \<times> store" where
  "select_HoroscopeProfiles cond n s =
     (limit n (case cond of None \<Rightarrow> horoscopeProfiles s
                          | Some c \<Rightarrow> filter c (horoscopeProfiles s)),
      logged (OpSelect HoroscopeProfiles) s)"

definition select_DailyHoroscopes ::
  "(daily_horoscope \<Rightarrow> bool) option \<Rightarrow> nat option \<Rightarrow> store \<Rightarrow> daily_horoscope list \<times> store" where
  "select_DailyHoroscopes cond n s =
     (limit n (case cond of None \<Rightarrow> dailyHoroscopes s
                          | Some c \<Rightarrow> filter c (dailyHoroscopes s)),
      logged (OpSelect DailyHoroscopes) s)"

definition insert_HoroscopeProfiles :: "profile \<Rightarrow> store \<Rightarrow> (thrown + unit) \<times> store" where
  "insert_HoroscopeProfiles row s =
     (let s1 = logged (OpInsert HoroscopeProfiles) s in
      if hp_id row \<in> set (map hp_id (horoscopeProfiles s))
      then (Inl (PrimaryKeyViolation HoroscopeProfiles), s1)
      else (Inr (), s1\<lparr>horoscopeProfiles := horoscopeProfiles s @ [row]\<rparr>))"

definition insert_DailyHoroscopes :: "daily_horoscope \<Rightarrow> store \<Rightarrow> (thrown + unit) \<times> store" where
  "insert_DailyHoroscopes row s =
     (let s1 = logged (OpInsert DailyHoroscopes) s in
      if dh_id row \<in> set (map dh_id (dailyHoroscopes s))
      then (Inl (PrimaryKeyViolation DailyHoroscopes), s1)
      else (Inr (), s1\<lparr>dailyHoroscopes := dailyHoroscopes s @ [row]\<rparr>))"

text \<open>A reference dangles when it is not NULL and no row of the referenced table has it.\<close>

definition dangling :: "string option \<Rightarrow> string list \<Rightarrow> bool" where
  "dangling reference ids = (case reference of None \<Rightarrow> False | Some k \<Rightarrow> k \<notin> set ids)"

definition insert_HoroscopeViews :: "horoscope_view \<Rightarrow> store \<Rightarrow> (thrown + unit) \<times> store" where
  "insert_HoroscopeViews row s =
     (let s1 = logged (OpInsert HoroscopeViews) s in
      if hv_id row \<in> set (map hv_id (horoscopeViews s))
      then (Inl (PrimaryKeyViolation HoroscopeViews), s1)
      else if dangling (hv_profileId row) (map hp_id (horoscopeProfiles s))
      then (Inl ForeignKeyViolation, s1)
      else if dangling (hv_dailyHoroscopeId row) (map dh_id (dailyHoroscopes s))
      then (Inl ForeignKeyViolation, s1)
      else (Inr (), s1\<lparr>horoscopeViews := horoscopeViews s @ [row]\<rparr>))"

text \<open>A key that is in the object overwrites the column; a key that is not leaves it.\<close>

definition set_nullable :: "'a option \<Rightarrow> 'a option \<Rightarrow> 'a option" where
  "set_nullable u old = (case u of None \<Rightarrow> old | Some v \<Rightarrow> Some v)"

definition set_required :: "'a option \<Rightarrow> 'a \<Rightarrow> 'a" where
  "set_required u old = (case u of None \<Rightarrow> old | Some v \<Rightarrow> v)"

definition apply_profile_updates :: "profile_updates \<Rightarrow> profile \<Rightarrow> profile" where
  "apply_profile_updates u row =
     row\<lparr>hp_name := set_nullable (pu_name u) (hp_name row),
         hp_birthDate := set_nullable (pu_birthDate u) (hp_birthDate row),
         hp_birthTime := set_nullable (pu_birthTime u) (hp_birthTime row),
         hp_birthPlace := set_nullable (pu_birthPlace u) (hp_birthPlace row),
         hp_zodiacSign := set_nullable (pu_zodiacSign u) (hp_zodiacSign row),
         hp_preferredLanguage := set_nullable (pu_preferredLanguage u) (hp_preferredLanguage row),
         hp_notes := set_nullable (pu_notes u) (hp_notes row),
         hp_updatedAt := set_required (pu_updatedAt u) (hp_updatedAt row)\<rparr>"

definition apply_horoscope_updates :: "horoscope_updates \<Rightarrow> daily_horoscope \<Rightarrow> daily_horoscope" where
  "apply_horoscope_updates u row =
     row\<lparr>dh_horoscopeDate := set_required (hu_horoscopeDate u) (dh_horoscopeDate row),
         dh_zodiacSign := set_required (hu_zodiacSign u) (dh_zodiacSign row),
         dh_language := set_nullable (hu_language u) (dh_language row),
         dh_generalText := set_required (hu_generalText u) (dh_generalText row),
         dh_loveText := set_nullable (hu_loveText u) (dh_loveText row),
         dh_careerText := set_nullable (hu_careerText u) (dh_careerText row),
         dh_healthText := set_nullable (hu_healthText u) (dh_healthText row),
         dh_luckyNumber := set_nullable (hu_luckyNumber u) (dh_luckyNumber row),
         dh_luckyColor := set_nullable (hu_luckyColor u) (dh_luckyColor row),
         dh_mood := set_nullable (hu_mood u) (dh_mood row)\<rparr>"

text \<open>The object has no key.\<close>

definition no_profile_values :: "profile_updates \<Rightarrow> bool" where
  "no_profile_values u =
     (pu_updatedAt u = None \<and> pu_name u = None \<and> pu_birthDate u = None
      \<and> pu_birthTime u = None \<and> pu_birthPlace u = None \<and> pu_zodiacSign u = None
      \<and> pu_preferredLanguage u = None \<and> pu_notes u = None)"

definition no_horoscope_values :: "horoscope_updates \<Rightarrow> bool" where
  "no_horoscope_values u =
     (hu_horoscopeDate u = None \<and> hu_zodiacSign u = None \<and> hu_language u = None
      \<and> hu_generalText u = None \<and> hu_loveText u = None \<and> hu_careerText u = None
      \<and> hu_healthText u = None \<and> hu_luckyNumber u = None \<and> hu_luckyColor u = None
      \<and> hu_mood u = None)"

definition update_HoroscopeProfiles ::
  "profile_updates \<Rightarrow> (profile \<Rightarrow> bool) \<Rightarrow> store \<Rightarrow> (thrown + unit) \<times> store" where
  "update_HoroscopeProfiles u cond s =
     (if no_profile_values u then (Inl NoValuesToSet, s)
      else (Inr (),
            (logged (OpUpdate HoroscopeProfiles) s)
              \<lparr>horoscopeProfiles :=
                 map (\<lambda>row. if cond row then apply_profile_updates u row else row)
                   (horoscopeProfiles s)\<rparr>))"

definition update_DailyHoroscopes ::
  "horoscope_updates \<Rightarrow> (daily_horoscope \<Rightarrow> bool) \<Rightarrow> store \<Rightarrow> (thrown + unit) \<times> store" where
  "update_DailyHoroscopes u cond s =
     (if no_horoscope_values u then (Inl NoValuesToSet, s)
      else (Inr (),
            (logged (OpUpdate DailyHoroscopes) s)
              \<lparr>dailyHoroscopes :=
                 map (\<lambda>row. if cond row then apply_horoscope_updates u row else row)
                   (dailyHoroscopes s)\<rparr>))"

definition delete_HoroscopeProfiles ::
  "(profile \<Rightarrow> bool) \<Rightarrow> store \<Rightarrow> (thrown + unit) \<times> store" where
  "delete_HoroscopeProfiles cond s =
     (let s1 = logged (OpDelete HoroscopeProfiles) s in
      if list_ex (\<lambda>row. Some (hp_id row) \<in> set (map hv_profileId (horoscopeViews s)))
           (filter cond (horoscopeProfiles s))
      then (Inl ForeignKeyViolation, s1)
      else (Inr (),
            s1\<lparr>horoscopeProfiles := filter (\<lambda>row. \<not> cond row) (horoscopeProfiles s)\<rparr>))"

section \<open>The handlers\<close>

text \<open>
  Each handler takes the parsed input and the context, as the framework calls it, and
  the store; it returns what it returns or throws, with the store it leaves. The
  reading of the clock (\<^verbatim>\<open>new Date()\<close>) and the identifier drawn by
  \<^verbatim>\<open>crypto.randomUUID()\<close> are arguments \<open>now\<close> and \<open>uuid\<close>.
\<close>

definition requireUser :: "action_context \<Rightarrow> thrown + user" where
  "requireUser context =
     (let locals = ctx_locals context;
          user = (case locals of None \<Rightarrow> None | Some l \<Rightarrow> locals_user l)
      in case user of
           None \<Rightarrow> Inl (ActionError UNAUTHORIZED ''You must be signed in to perform this action.'')
         | Some u \<Rightarrow> Inr u)"

definition createProfile ::
  "createProfile_input \<Rightarrow> action_context \<Rightarrow> date \<Rightarrow> string \<Rightarrow> store
     \<Rightarrow> (thrown + string) \<times> store" where
  "createProfile input context now uuid s =
     (case requireUser context of
        Inl e \<Rightarrow> (Inl e, s)
      | Inr user \<Rightarrow>
          (case insert_HoroscopeProfiles
                  \<lparr>hp_id = uuid,
                   hp_userId = user_id user,
                   hp_name = cp_name input,
                   hp_birthDate = cp_birthDate input,
                   hp_birthTime = cp_birthTime input,
                   hp_birthPlace = cp_birthPlace input,
                   hp_zodiacSign = cp_zodiacSign input,
                   hp_preferredLanguage = cp_preferredLanguage input,
                   hp_notes = cp_notes input,
                   hp_createdAt = now,
                   hp_updatedAt = now\<rparr> s of
             (Inl e, s1) \<Rightarrow> (Inl e, s1)
           | (Inr _, s1) \<Rightarrow> (Inr uuid, s1)))"

definition updateProfile ::
  "updateProfile_input \<Rightarrow> action_context \<Rightarrow> date \<Rightarrow> store \<Rightarrow> (thrown + string) \<times> store" where
  "updateProfile input context now s =
     (case requireUser context of
        Inl e \<Rightarrow> (Inl e, s)
      | Inr user \<Rightarrow>
          (let (rows, s1) =
                 select_HoroscopeProfiles
                   (Some (and_all [eq hp_id (up_id input), eq hp_userId (user_id user)]))
                   (Some 1) s;
               existing = at0 rows
           in case existing of
                None \<Rightarrow> (Inl (ActionError NOT_FOUND ''Profile not found.''), s1)
              | Some _ \<Rightarrow>
                  (let updates = \<lparr>pu_updatedAt = Some now, pu_name = None, pu_birthDate = None,
                                  pu_birthTime = None, pu_birthPlace = None, pu_zodiacSign = None,
                                  pu_preferredLanguage = None, pu_notes = None\<rparr>;
                       updates = (if up_name input \<noteq> None
                                  then updates\<lparr>pu_name := up_name input\<rparr> else updates);
                       updates = (if up_birthDate input \<noteq> None
                                  then updates\<lparr>pu_birthDate := up_birthDate input\<rparr> else updates);
                       updates = (if up_birthTime input \<noteq> None
                                  then updates\<lparr>pu_birthTime := up_birthTime input\<rparr> else updates);
                       updates = (if up_birthPlace input \<noteq> None
                                  then updates\<lparr>pu_birthPlace := up_birthPlace input\<rparr> else updates);
                       updates = (if up_zodiacSign input \<noteq> None
                                  then updates\<lparr>pu_zodiacSign := up_zodiacSign input\<rparr> else updates);
                       updates = (if up_preferredLanguage input \<noteq> None
                                  then updates\<lparr>pu_preferredLanguage := up_preferredLanguage input\<rparr>
                                  else updates);
                       updates = (if up_notes input \<noteq> None
                                  then updates\<lparr>pu_notes := up_notes input\<rparr> else updates)
                   in case update_HoroscopeProfiles updates
                             (and_all [eq hp_id (up_id input), eq hp_userId (user_id user)]) s1 of
                        (Inl e, s2) \<Rightarrow> (Inl e, s2)
                      | (Inr _, s2) \<Rightarrow> (Inr (up_id input), s2))))"

definition deleteProfile ::
  "deleteProfile_input \<Rightarrow> action_context \<Rightarrow> store \<Rightarrow> (thrown + string) \<times> store" where
  "deleteProfile input context s =
     (case requireUser context of
        Inl e \<Rightarrow> (Inl e, s)
      | Inr user \<Rightarrow>
          (let (rows, s1) =
                 select_HoroscopeProfiles
                   (Some (and_all [eq hp_id (dp_id input), eq hp_userId (user_id user)]))
                   (Some 1) s;
               existing = at0 rows
           in case existing of
                None \<Rightarrow> (Inl (ActionError NOT_FOUND ''Profile not found.''), s1)
              | Some _ \<Rightarrow>
                  (case delete_HoroscopeProfiles
                          (and_all [eq hp_id (dp_id input), eq hp_userId (user_id user)]) s1 of
                     (Inl e, s2) \<Rightarrow> (Inl e, s2)
                   | (Inr _, s2) \<Rightarrow> (Inr (dp_id input), s2))))"

definition listProfiles ::
  "unit option \<Rightarrow> action_context \<Rightarrow> store \<Rightarrow> (thrown + listProfiles_data) \<times> store" where
  "listProfiles input context s =
     (case requireUser context of
        Inl e \<Rightarrow> (Inl e, s)
      | Inr user \<Rightarrow>
          (let (profiles, s1) =
                 select_HoroscopeProfiles (Some (eq hp_userId (user_id user))) None s
           in (Inr \<lparr>lp_items = profiles, lp_total = length profiles\<rparr>, s1)))"

definition createDailyHoroscope ::
  "createDailyHoroscope_input \<Rightarrow> action_context \<Rightarrow> date \<Rightarrow> string \<Rightarrow> store
     \<Rightarrow> (thrown + createDailyHoroscope_data) \<times> store" where
  "createDailyHoroscope input context now uuid s =
     (case requireUser context of
        Inl e \<Rightarrow> (Inl e, s)
      | Inr user \<Rightarrow>
          (case insert_DailyHoroscopes
                  \<lparr>dh_id = uuid,
                   dh_horoscopeDate = cd_horoscopeDate input,
                   dh_zodiacSign = cd_zodiacSign input,
                   dh_language = cd_language input,
                   dh_generalText = cd_generalText input,
                   dh_loveText = cd_loveText input,
                   dh_careerText = cd_careerText input,
                   dh_healthText = cd_healthText input,
                   dh_luckyNumber = cd_luckyNumber input,
                   dh_luckyColor = cd_luckyColor input,
                   dh_mood = cd_mood input,
                   dh_createdAt = now\<rparr> s of
             (Inl e, s1) \<Rightarrow> (Inl e, s1)
           | (Inr _, s1) \<Rightarrow> (Inr \<lparr>cdd_id = uuid, cdd_ownerId = user_id user\<rparr>, s1)))"

definition updateDailyHoroscope ::
  "updateDailyHoroscope_input \<Rightarrow> action_context \<Rightarrow> store \<Rightarrow> (thrown + string) \<times> store" where
  "updateDailyHoroscope input context s =
     (case requireUser context of
        Inl e \<Rightarrow> (Inl e, s)
      | Inr _ \<Rightarrow>
          (let (rows, s1) = select_DailyHoroscopes (Some (eq dh_id (ud_id input))) (Some 1) s;
               existing = at0 rows
           in case existing of
                None \<Rightarrow> (Inl (ActionError NOT_FOUND ''Daily horoscope not found.''), s1)
              | Some _ \<Rightarrow>
                  (let updates = \<lparr>hu_horoscopeDate = None, hu_zodiacSign = None, hu_language = None,
                                  hu_generalText = None, hu_loveText = None, hu_careerText = None,
                                  hu_healthText = None, hu_luckyNumber = None, hu_luckyColor = None,
                                  hu_mood = None\<rparr>;
                       updates = (if ud_horoscopeDate input \<noteq> None
                                  then updates\<lparr>hu_horoscopeDate := ud_horoscopeDate input\<rparr>
                                  else updates);
                       updates = (if ud_zodiacSign input \<noteq> None
                                  then updates\<lparr>hu_zodiacSign := ud_zodiacSign input\<rparr> else updates);
                       updates = (if ud_language input \<noteq> None
                                  then updates\<lparr>hu_language := ud_language input\<rparr> else updates);
                       updates = (if ud_generalText input \<noteq> None
                                  then updates\<lparr>hu_generalText := ud_generalText input\<rparr> else updates);
                       updates = (if ud_loveText input \<noteq> None
                                  then updates\<lparr>hu_loveText := ud_loveText input\<rparr> else updates);
                       updates = (if ud_careerText input \<noteq> None
                                  then updates\<lparr>hu_careerText := ud_careerText input\<rparr> else updates);
                       updates = (if ud_healthText input \<noteq> None
                                  then updates\<lparr>hu_healthText := ud_healthText input\<rparr> else updates);
                       updates = (if ud_luckyNumber input \<noteq> None
                                  then updates\<lparr>hu_luckyNumber := ud_luckyNumber input\<rparr> else updates);
                       updates = (if ud_luckyColor input \<noteq> None
                                  then updates\<lparr>hu_luckyColor := ud_luckyColor input\<rparr> else updates);
                       updates = (if ud_mood input \<noteq> None
                                  then updates\<lparr>hu_mood := ud_mood input\<rparr> else updates)
                   in case update_DailyHoroscopes updates (eq dh_id (ud_id input)) s1 of
                        (Inl e, s2) \<Rightarrow> (Inl e, s2)
                      | (Inr _, s2) \<Rightarrow> (Inr (ud_id input), s2))))"

text \<open>
  The two horoscope queries are declared with the input alone; the context the
  framework passes is not read.
\<close>

definition getDailyHoroscope ::
  "getDailyHoroscope_input \<Rightarrow> action_context \<Rightarrow> date \<Rightarrow> store
     \<Rightarrow> (thrown + daily_horoscope) \<times> store" where
  "getDailyHoroscope input context now s =
     (let targetDate = (case gd_horoscopeDate input of None \<Rightarrow> now | Some d \<Rightarrow> d);
          conditions = [eq dh_zodiacSign (gd_zodiacSign input),
                        eq dh_horoscopeDate targetDate];
          conditions = (if truthy (gd_language input)
                        then conditions @ [eq dh_language (gd_language input)]
                        else conditions);
          (rows, s1) =
            select_DailyHoroscopes
              (Some (if length conditions = 1 then conditions ! 0 else and_all conditions))
              (Some 1) s;
          horoscope = at0 rows
      in case horoscope of
           None \<Rightarrow> (Inl (ActionError NOT_FOUND
                            ''No horoscope found for the given sign and date.''), s1)
         | Some h \<Rightarrow> (Inr h, s1))"

definition listDailyHoroscopes ::
  "listDailyHoroscopes_input option \<Rightarrow> action_context \<Rightarrow> store
     \<Rightarrow> (thrown + listDailyHoroscopes_data) \<times> store" where
  "listDailyHoroscopes input context s =
     (let conditions = [];
          conditions = (case (case input of None \<Rightarrow> None | Some i \<Rightarrow> ld_zodiacSign i) of
                          None \<Rightarrow> conditions
                        | Some v \<Rightarrow> if truthy (Some v)
                                     then conditions @ [eq dh_zodiacSign v] else conditions);
          conditions = (case (case input of None \<Rightarrow> None | Some i \<Rightarrow> ld_horoscopeDate i) of
                          None \<Rightarrow> conditions
                        | Some d \<Rightarrow> conditions @ [eq dh_horoscopeDate d]);
          conditions = (case (case input of None \<Rightarrow> None | Some i \<Rightarrow> ld_language i) of
                          None \<Rightarrow> conditions
                        | Some v \<Rightarrow> if truthy (Some v)
                                     then conditions @ [eq dh_language (Some v)] else conditions);
          (rows, s1) =
            (if length conditions > 0
             then select_DailyHoroscopes
                    (Some (if length conditions = 1 then conditions ! 0 else and_all conditions))
                    None s
             else select_DailyHoroscopes None None s)
      in (Inr \<lparr>ldd_items = rows, ldd_total = length rows\<rparr>, s1))"

definition logHoroscopeView ::
  "logHoroscopeView_input \<Rightarrow> action_context \<Rightarrow> date \<Rightarrow> string \<Rightarrow> store
     \<Rightarrow> (thrown + string) \<times> store" where
  "logHoroscopeView input context now uuid s =
     (case requireUser context of
        Inl e \<Rightarrow> (Inl e, s)
      | Inr user \<Rightarrow>
          (let (checked1, s1) =
                 (case lv_profileId input of
                    None \<Rightarrow> (Inr (), s)
                  | Some profileId \<Rightarrow>
                      if truthy (Some profileId)
                      then (let (rows, s') =
                                  select_HoroscopeProfiles
                                    (Some (and_all [eq hp_id profileId,
                                                    eq hp_userId (user_id user)]))
                                    (Some 1) s;
                                profile = at0 rows
                            in case profile of
                                 None \<Rightarrow> (Inl (ActionError FORBIDDEN
                                                  ''Profile not found for this user.''), s')
                               | Some _ \<Rightarrow> (Inr (), s'))
                      else (Inr (), s))
           in case checked1 of
                Inl e \<Rightarrow> (Inl e, s1)
              | Inr _ \<Rightarrow>
                  (let (checked2, s2) =
                         (case lv_dailyHoroscopeId input of
                            None \<Rightarrow> (Inr (), s1)
                          | Some dailyHoroscopeId \<Rightarrow>
                              if truthy (Some dailyHoroscopeId)
                              then (let (rows, s') =
                                          select_DailyHoroscopes
                                            (Some (eq dh_id dailyHoroscopeId)) (Some 1) s1;
                                        horoscope = at0 rows
                                    in case horoscope of
                                         None \<Rightarrow> (Inl (ActionError NOT_FOUND
                                                          ''Daily horoscope not found.''), s')
                                       | Some _ \<Rightarrow> (Inr (), s'))
                              else (Inr (), s1))
                   in case checked2 of
                        Inl e \<Rightarrow> (Inl e, s2)
                      | Inr _ \<Rightarrow>
                          (case insert_HoroscopeViews
                                  \<lparr>hv_id = uuid,
                                   hv_profileId = lv_profileId input,
                                   hv_userId = user_id user,
                                   hv_dailyHoroscopeId = lv_dailyHoroscopeId input,
                                   hv_viewedAt = now,
                                   hv_deviceInfo = lv_deviceInfo input,
                                   hv_createdAt = now\<rparr> s2 of
                             (Inl e, s3) \<Rightarrow> (Inl e, s3)
                           | (Inr _, s3) \<Rightarrow> (Inr uuid, s3)))))"

section \<open>Sample data\<close>

text \<open>
  The data of the scenarios of section 8 of the specification: users \<open>U1\<close> and \<open>U2\<close>,
  the profile \<open>P1\<close> of \<open>U1\<close>, and horoscopes for aries on 2024-01-01
  (1704067200000 ms), two of them for the same sign, date and language.
\<close>

definition ex_ctx :: "string \<Rightarrow> action_context" where
  "ex_ctx uid = \<lparr>ctx_locals = Some \<lparr>locals_user = Some \<lparr>user_id = uid\<rparr>\<rparr>\<rparr>"

definition ex_anonymous :: action_context where
  "ex_anonymous = \<lparr>ctx_locals = Some \<lparr>locals_user = None\<rparr>\<rparr>"

definition ex_profile :: profile where
  "ex_profile =
     \<lparr>hp_id = ''P1'', hp_userId = ''U1'', hp_name = Some ''Self'', hp_birthDate = None,
      hp_birthTime = Some ''14:30'', hp_birthPlace = None, hp_zodiacSign = Some ''aries'',
      hp_preferredLanguage = None, hp_notes = None, hp_createdAt = 100, hp_updatedAt = 100\<rparr>"

definition ex_horoscope :: "string \<Rightarrow> string \<Rightarrow> daily_horoscope" where
  "ex_horoscope hid body =
     \<lparr>dh_id = hid, dh_horoscopeDate = 1704067200000, dh_zodiacSign = ''aries'',
      dh_language = Some ''en'', dh_generalText = body, dh_loveText = None,
      dh_careerText = None, dh_healthText = None, dh_luckyNumber = Some ''7'',
      dh_luckyColor = None, dh_mood = None, dh_createdAt = 50\<rparr>"

definition ex_empty :: store where
  "ex_empty = \<lparr>horoscopeProfiles = [], dailyHoroscopes = [], horoscopeViews = [], accesses = []\<rparr>"

definition ex_store :: store where
  "ex_store =
     \<lparr>horoscopeProfiles = [ex_profile],
      dailyHoroscopes = [ex_horoscope ''H1'' ''first'', ex_horoscope ''H2'' ''second''],
      horoscopeViews = [], accesses = []\<rparr>"

definition ex_createProfile :: createProfile_input where
  "ex_createProfile =
     \<lparr>cp_name = Some ''Self'', cp_birthDate = None, cp_birthTime = None, cp_birthPlace = None,
      cp_zodiacSign = Some ''aries'', cp_preferredLanguage = None, cp_notes = None\<rparr>"

definition ex_updateProfile :: updateProfile_input where
  "ex_updateProfile =
     \<lparr>up_id = ''P1'', up_name = Some ''Me'', up_birthDate = None, up_birthTime = None,
      up_birthPlace = None, up_zodiacSign = None, up_preferredLanguage = None,
      up_notes = Some []\<rparr>"

definition ex_createDailyHoroscope :: createDailyHoroscope_input where
  "ex_createDailyHoroscope =
     \<lparr>cd_horoscopeDate = 1704067200000, cd_zodiacSign = ''aries'', cd_language = None,
      cd_generalText = ''third'', cd_loveText = None, cd_careerText = None,
      cd_healthText = None, cd_luckyNumber = None, cd_luckyColor = None, cd_mood = None\<rparr>"

definition ex_updateDailyHoroscope :: updateDailyHoroscope_input where
  "ex_updateDailyHoroscope =
     \<lparr>ud_id = ''H1'', ud_horoscopeDate = None, ud_zodiacSign = None, ud_language = None,
      ud_generalText = None, ud_loveText = None, ud_careerText = None, ud_healthText = None,
      ud_luckyNumber = None, ud_luckyColor = None, ud_mood = Some ''calm''\<rparr>"

definition ex_getDailyHoroscope :: getDailyHoroscope_input where
  "ex_getDailyHoroscope =
     \<lparr>gd_zodiacSign = ''aries'', gd_horoscopeDate = None, gd_language = Some ''en''\<rparr>"

definition ex_listDailyHoroscopes :: listDailyHoroscopes_input where
  "ex_listDailyHoroscopes =
     \<lparr>ld_zodiacSign = Some ''aries'', ld_horoscopeDate = None, ld_language = None\<rparr>"

definition ex_logHoroscopeView :: "string option \<Rightarrow> string option \<Rightarrow> logHoroscopeView_input" where
  "ex_logHoroscopeView pid hid =
     \<lparr>lv_profileId = pid, lv_dailyHoroscopeId = hid, lv_deviceInfo = Some ''phone''\<rparr>"

section \<open>Facts about the context and the store\<close>

lemma requireUser_signed_out:
  "(case ctx_locals ctx of None \<Rightarrow> None | Some l \<Rightarrow> locals_user l) = None
   \<Longrightarrow> requireUser ctx =
         Inl (ActionError UNAUTHORIZED ''You must be signed in to perform this action.'')"
  by (simp add: requireUser_def)

lemma requireUser_signed_in:
  "ctx_locals ctx = Some l \<Longrightarrow> locals_user l = Some u \<Longrightarrow> requireUser ctx = Inr u"
  by (simp add: requireUser_def)

lemma requireUser_ex_ctx: "requireUser (ex_ctx uid) = Inr \<lparr>user_id = uid\<rparr>"
  by (simp add: requireUser_def ex_ctx_def)

lemma at0_limit_1: "at0 (limit (Some 1) rows) = at0 rows"
  by (cases rows) (simp_all add: limit_def)

lemma at0_filter_None: "(at0 (filter c rows) = None) = (\<not> (\<exists>r \<in> set rows. c r))"
  by (induction rows) auto

lemma owned_cond:
  "and_all [eq hp_id pid, eq hp_userId uid] = (\<lambda>r. hp_id r = pid \<and> hp_userId r = uid)"
  by (simp add: and_all_def eq_def fun_eq_iff)

section \<open>Authentication\<close>

text \<open>
  C5. When the context carries no user, each of the seven handlers that call
  \<^verbatim>\<open>requireUser\<close> throws \<^verbatim>\<open>UNAUTHORIZED\<close> and leaves the store as it was, tables
  and statement log alike: no statement was issued. The two horoscope queries give the
  same outcome under that context as under any other.
\<close>

theorem unauthenticated_handlers_touch_nothing:
  assumes "(case ctx_locals ctx of None \<Rightarrow> None | Some l \<Rightarrow> locals_user l) = None"
  shows "createProfile cp ctx now1 uuid1 s =
           (Inl (ActionError UNAUTHORIZED ''You must be signed in to perform this action.''), s)
       \<and> updateProfile up ctx now2 s =
           (Inl (ActionError UNAUTHORIZED ''You must be signed in to perform this action.''), s)
       \<and> deleteProfile dp ctx s =
           (Inl (ActionError UNAUTHORIZED ''You must be signed in to perform this action.''), s)
       \<and> listProfiles lp ctx s =
           (Inl (ActionError UNAUTHORIZED ''You must be signed in to perform this action.''), s)
       \<and> createDailyHoroscope cd ctx now3 uuid3 s =
           (Inl (ActionError UNAUTHORIZED ''You must be signed in to perform this action.''), s)
       \<and> updateDailyHoroscope ud ctx s =
           (Inl (ActionError UNAUTHORIZED ''You must be signed in to perform this action.''), s)
       \<and> logHoroscopeView lv ctx now4 uuid4 s =
           (Inl (ActionError UNAUTHORIZED ''You must be signed in to perform this action.''), s)
       \<and> getDailyHoroscope gd ctx now5 s = getDailyHoroscope gd ctx' now5 s
       \<and> listDailyHoroscopes ld ctx s = listDailyHoroscopes ld ctx' s"
proof -
  note r = requireUser_signed_out [OF assms]
  have 1: "createProfile cp ctx now1 uuid1 s =
           (Inl (ActionError UNAUTHORIZED ''You must be signed in to perform this action.''), s)"
    by (simp add: createProfile_def r)
  have 2: "updateProfile up ctx now2 s =
           (Inl (ActionError UNAUTHORIZED ''You must be signed in to perform this action.''), s)"
    by (simp add: updateProfile_def r)
  have 3: "deleteProfile dp ctx s =
           (Inl (ActionError UNAUTHORIZED ''You must be signed in to perform this action.''), s)"
    by (simp add: deleteProfile_def r)
  have 4: "listProfiles lp ctx s =
           (Inl (ActionError UNAUTHORIZED ''You must be signed in to perform this action.''), s)"
    by (simp add: listProfiles_def r)
  have 5: "createDailyHoroscope cd ctx now3 uuid3 s =
           (Inl (ActionError UNAUTHORIZED ''You must be signed in to perform this action.''), s)"
    by (simp add: createDailyHoroscope_def r)
  have 6: "updateDailyHoroscope ud ctx s =
           (Inl (ActionError UNAUTHORIZED ''You must be signed in to perform this action.''), s)"
    by (simp add: updateDailyHoroscope_def r)
  have 7: "logHoroscopeView lv ctx now4 uuid4 s =
           (Inl (ActionError UNAUTHORIZED ''You must be signed in to perform this action.''), s)"
    by (simp add: logHoroscopeView_def r)
  have 8: "getDailyHoroscope gd ctx now5 s = getDailyHoroscope gd ctx' now5 s"
    by (simp add: getDailyHoroscope_def)
  have 9: "listDailyHoroscopes ld ctx s = listDailyHoroscopes ld ctx' s"
    by (simp add: listDailyHoroscopes_def)
  from 1 2 3 4 5 6 7 8 9 show ?thesis by blast
qed

theorem unauthenticated_handlers_touch_nothing_witness:
  "createProfile ex_createProfile ex_anonymous 200 ''P2'' ex_store =
     (Inl (ActionError UNAUTHORIZED ''You must be signed in to perform this action.''), ex_store)
   \<and> updateProfile ex_updateProfile ex_anonymous 200 ex_store =
     (Inl (ActionError UNAUTHORIZED ''You must be signed in to perform this action.''), ex_store)
   \<and> deleteProfile \<lparr>dp_id = ''P1''\<rparr> ex_anonymous ex_store =
     (Inl (ActionError UNAUTHORIZED ''You must be signed in to perform this action.''), ex_store)
   \<and> listProfiles None ex_anonymous ex_store =
     (Inl (ActionError UNAUTHORIZED ''You must be signed in to perform this action.''), ex_store)
   \<and> createDailyHoroscope ex_createDailyHoroscope ex_anonymous 200 ''H3'' ex_store =
     (Inl (ActionError UNAUTHORIZED ''You must be signed in to perform this action.''), ex_store)
   \<and> updateDailyHoroscope ex_updateDailyHoroscope ex_anonymous ex_store =
     (Inl (ActionError UNAUTHORIZED ''You must be signed in to perform this action.''), ex_store)
   \<and> logHoroscopeView (ex_logHoroscopeView None None) ex_anonymous 200 ''V1'' ex_store =
     (Inl (ActionError UNAUTHORIZED ''You must be signed in to perform this action.''), ex_store)
   \<and> getDailyHoroscope ex_getDailyHoroscope ex_anonymous 1704067200000 ex_store =
     getDailyHoroscope ex_getDailyHoroscope (ex_ctx ''U1'') 1704067200000 ex_store
   \<and> listDailyHoroscopes (Some ex_listDailyHoroscopes) ex_anonymous ex_store =
     listDailyHoroscopes (Some ex_listDailyHoroscopes) (ex_ctx ''U1'') ex_store"
proof -
  have h: "(case ctx_locals ex_anonymous of None \<Rightarrow> None | Some l \<Rightarrow> locals_user l) = None"
    by (simp add: ex_anonymous_def)
  show ?thesis
    by (rule unauthenticated_handlers_touch_nothing [OF h])
qed

section \<open>Profiles\<close>

lemma select_owned_none:
  "\<not> (\<exists>r \<in> set (horoscopeProfiles s). hp_id r = pid \<and> hp_userId r = uid)
   \<Longrightarrow> select_HoroscopeProfiles (Some (and_all [eq hp_id pid, eq hp_userId uid])) (Some 1) s =
         ([], s\<lparr>accesses := accesses s @ [OpSelect HoroscopeProfiles]\<rparr>)"
  by (simp add: select_HoroscopeProfiles_def owned_cond logged_def limit_def filter_empty_conv)

text \<open>
  C1. For a signed-in caller and a profile identifier, when no row of the profile table
  has both that identifier and the caller as owner, \<^verbatim>\<open>updateProfile\<close> and
  \<^verbatim>\<open>deleteProfile\<close> throw \<^verbatim>\<open>NOT_FOUND\<close> with the same message after the one lookup,
  and change no table. Two stores that both lack such a row, one because the identifier
  is absent and one because another user owns it, give the same failure.
\<close>

theorem profile_not_owned_reads_as_absent:
  assumes "ctx_locals ctx = Some l" and "locals_user l = Some u"
    and "\<not> (\<exists>r \<in> set (horoscopeProfiles s). hp_id r = pid \<and> hp_userId r = user_id u)"
    and "\<not> (\<exists>r \<in> set (horoscopeProfiles s'). hp_id r = pid \<and> hp_userId r = user_id u)"
    and "up_id ui = pid" and "dp_id di = pid"
  shows "updateProfile ui ctx now s =
           (Inl (ActionError NOT_FOUND ''Profile not found.''),
            s\<lparr>accesses := accesses s @ [OpSelect HoroscopeProfiles]\<rparr>)
       \<and> deleteProfile di ctx s =
           (Inl (ActionError NOT_FOUND ''Profile not found.''),
            s\<lparr>accesses := accesses s @ [OpSelect HoroscopeProfiles]\<rparr>)
       \<and> fst (updateProfile ui ctx now s) = fst (updateProfile ui ctx now s')
       \<and> fst (deleteProfile di ctx s) = fst (deleteProfile di ctx s')"
proof -
  note r = requireUser_signed_in [OF assms(1,2)]
  have upd: "updateProfile ui ctx now t =
           (Inl (ActionError NOT_FOUND ''Profile not found.''),
            t\<lparr>accesses := accesses t @ [OpSelect HoroscopeProfiles]\<rparr>)"
    if "\<not> (\<exists>r \<in> set (horoscopeProfiles t). hp_id r = pid \<and> hp_userId r = user_id u)" for t
    unfolding updateProfile_def r sum.case assms(5) select_owned_none [OF that] by simp
  have del: "deleteProfile di ctx t =
           (Inl (ActionError NOT_FOUND ''Profile not found.''),
            t\<lparr>accesses := accesses t @ [OpSelect HoroscopeProfiles]\<rparr>)"
    if "\<not> (\<exists>r \<in> set (horoscopeProfiles t). hp_id r = pid \<and> hp_userId r = user_id u)" for t
    unfolding deleteProfile_def r sum.case assms(6) select_owned_none [OF that] by simp
  show ?thesis
    by (simp add: upd [OF assms(3)] upd [OF assms(4)] del [OF assms(3)] del [OF assms(4)])
qed

theorem profile_not_owned_reads_as_absent_witness:
  "updateProfile ex_updateProfile (ex_ctx ''U2'') 200 ex_empty =
     (Inl (ActionError NOT_FOUND ''Profile not found.''),
      ex_empty\<lparr>accesses := accesses ex_empty @ [OpSelect HoroscopeProfiles]\<rparr>)
   \<and> deleteProfile \<lparr>dp_id = ''P1''\<rparr> (ex_ctx ''U2'') ex_empty =
     (Inl (ActionError NOT_FOUND ''Profile not found.''),
      ex_empty\<lparr>accesses := accesses ex_empty @ [OpSelect HoroscopeProfiles]\<rparr>)
   \<and> fst (updateProfile ex_updateProfile (ex_ctx ''U2'') 200 ex_empty) =
     fst (updateProfile ex_updateProfile (ex_ctx ''U2'') 200 ex_store)
   \<and> fst (deleteProfile \<lparr>dp_id = ''P1''\<rparr> (ex_ctx ''U2'') ex_empty) =
     fst (deleteProfile \<lparr>dp_id = ''P1''\<rparr> (ex_ctx ''U2'') ex_store)"
proof -
  have c: "ctx_locals (ex_ctx ''U2'') = Some \<lparr>locals_user = Some \<lparr>user_id = ''U2''\<rparr>\<rparr>"
    by (simp add: ex_ctx_def)
  have u: "locals_user \<lparr>locals_user = Some \<lparr>user_id = ''U2''\<rparr>\<rparr> = Some \<lparr>user_id = ''U2''\<rparr>"
    by simp
  have absent: "\<not> (\<exists>r \<in> set (horoscopeProfiles ex_empty).
                    hp_id r = ''P1'' \<and> hp_userId r = user_id \<lparr>user_id = ''U2''\<rparr>)"
    by (simp add: ex_empty_def)
  have foreign: "\<not> (\<exists>r \<in> set (horoscopeProfiles ex_store).
                    hp_id r = ''P1'' \<and> hp_userId r = user_id \<lparr>user_id = ''U2''\<rparr>)"
    by (simp add: ex_store_def ex_profile_def)
  have i: "up_id ex_updateProfile = ''P1''" by (simp add: ex_updateProfile_def)
  have d: "dp_id \<lparr>dp_id = ''P1''\<rparr> = ''P1''" by simp
  show ?thesis
    by (rule profile_not_owned_reads_as_absent [OF c u absent foreign i d])
qed

lemma at0_filter_Some:
  "\<exists>r \<in> set rows. c r \<Longrightarrow> \<exists>x. at0 (limit (Some 1) (filter c rows)) = Some x"
  unfolding at0_limit_1 using at0_filter_None [of c rows] by simp

lemma pu_name_key:
  "pu_name U = None \<Longrightarrow> (if v \<noteq> None then U\<lparr>pu_name := v\<rparr> else U) = U\<lparr>pu_name := v\<rparr>"
  by (cases U) auto

lemma pu_birthDate_key:
  "pu_birthDate U = None
   \<Longrightarrow> (if v \<noteq> None then U\<lparr>pu_birthDate := v\<rparr> else U) = U\<lparr>pu_birthDate := v\<rparr>"
  by (cases U) auto

lemma pu_birthTime_key:
  "pu_birthTime U = None
   \<Longrightarrow> (if v \<noteq> None then U\<lparr>pu_birthTime := v\<rparr> else U) = U\<lparr>pu_birthTime := v\<rparr>"
  by (cases U) auto

lemma pu_birthPlace_key:
  "pu_birthPlace U = None
   \<Longrightarrow> (if v \<noteq> None then U\<lparr>pu_birthPlace := v\<rparr> else U) = U\<lparr>pu_birthPlace := v\<rparr>"
  by (cases U) auto

lemma pu_zodiacSign_key:
  "pu_zodiacSign U = None
   \<Longrightarrow> (if v \<noteq> None then U\<lparr>pu_zodiacSign := v\<rparr> else U) = U\<lparr>pu_zodiacSign := v\<rparr>"
  by (cases U) auto

lemma pu_preferredLanguage_key:
  "pu_preferredLanguage U = None
   \<Longrightarrow> (if v \<noteq> None then U\<lparr>pu_preferredLanguage := v\<rparr> else U) =
         U\<lparr>pu_preferredLanguage := v\<rparr>"
  by (cases U) auto

lemma pu_notes_key:
  "pu_notes U = None \<Longrightarrow> (if v \<noteq> None then U\<lparr>pu_notes := v\<rparr> else U) = U\<lparr>pu_notes := v\<rparr>"
  by (cases U) auto

lemmas profile_update_keys =
  pu_name_key pu_birthDate_key pu_birthTime_key pu_birthPlace_key pu_zodiacSign_key
  pu_preferredLanguage_key pu_notes_key

lemma updateProfile_owned:
  assumes "ctx_locals ctx = Some l" and "locals_user l = Some u"
    and "\<exists>r \<in> set (horoscopeProfiles s). hp_id r = up_id ui \<and> hp_userId r = user_id u"
  shows "updateProfile ui ctx now s =
           (Inr (up_id ui),
            s\<lparr>accesses := accesses s @ [OpSelect HoroscopeProfiles, OpUpdate HoroscopeProfiles],
              horoscopeProfiles :=
                map (\<lambda>row. if hp_id row = up_id ui \<and> hp_userId row = user_id u
                          then apply_profile_updates
                                 \<lparr>pu_updatedAt = Some now, pu_name = up_name ui,
                                  pu_birthDate = up_birthDate ui, pu_birthTime = up_birthTime ui,
                                  pu_birthPlace = up_birthPlace ui,
                                  pu_zodiacSign = up_zodiacSign ui,
                                  pu_preferredLanguage = up_preferredLanguage ui,
                                  pu_notes = up_notes ui\<rparr> row
                          else row)
                  (horoscopeProfiles s)\<rparr>)"
proof -
  from at0_filter_Some [OF assms(3)] obtain x where
    x: "at0 (limit (Some 1) (filter (\<lambda>r. hp_id r = up_id ui \<and> hp_userId r = user_id u)
          (horoscopeProfiles s))) = Some x" ..
  show ?thesis
    unfolding updateProfile_def requireUser_signed_in [OF assms(1,2)] sum.case
      select_HoroscopeProfiles_def owned_cond option.case prod.case Let_def x
    by (simp add: profile_update_keys update_HoroscopeProfiles_def no_profile_values_def
          logged_def)
qed

text \<open>
  C2. For a signed-in caller and a profile of theirs, \<^verbatim>\<open>updateProfile\<close> succeeds with
  the identifier; in the row (every row with that identifier and owner) each optional
  field that the input supplies takes the supplied value, each field the input leaves
  \<^verbatim>\<open>undefined\<close> keeps its value, and \<^verbatim>\<open>updatedAt\<close> becomes the current time. No row
  changes its identifier, owner or creation time, every other row is as it was, and the
  other two tables are untouched.
\<close>

theorem updateProfile_writes_supplied_fields_only:
  assumes "ctx_locals ctx = Some l" and "locals_user l = Some u"
    and "\<exists>r \<in> set (horoscopeProfiles s). hp_id r = up_id ui \<and> hp_userId r = user_id u"
  shows "\<exists>s'. updateProfile ui ctx now s = (Inr (up_id ui), s')
       \<and> dailyHoroscopes s' = dailyHoroscopes s
       \<and> horoscopeViews s' = horoscopeViews s
       \<and> length (horoscopeProfiles s') = length (horoscopeProfiles s)
       \<and> (\<forall>i < length (horoscopeProfiles s).
             hp_id (horoscopeProfiles s' ! i) = hp_id (horoscopeProfiles s ! i)
           \<and> hp_userId (horoscopeProfiles s' ! i) = hp_userId (horoscopeProfiles s ! i)
           \<and> hp_createdAt (horoscopeProfiles s' ! i) = hp_createdAt (horoscopeProfiles s ! i)
           \<and> (if hp_id (horoscopeProfiles s ! i) = up_id ui
                  \<and> hp_userId (horoscopeProfiles s ! i) = user_id u
               then hp_updatedAt (horoscopeProfiles s' ! i) = now
                  \<and> hp_name (horoscopeProfiles s' ! i) =
                      (case up_name ui of None \<Rightarrow> hp_name (horoscopeProfiles s ! i)
                                        | Some v \<Rightarrow> Some v)
                  \<and> hp_birthDate (horoscopeProfiles s' ! i) =
                      (case up_birthDate ui of None \<Rightarrow> hp_birthDate (horoscopeProfiles s ! i)
                                             | Some v \<Rightarrow> Some v)
                  \<and> hp_birthTime (horoscopeProfiles s' ! i) =
                      (case up_birthTime ui of None \<Rightarrow> hp_birthTime (horoscopeProfiles s ! i)
                                             | Some v \<Rightarrow> Some v)
                  \<and> hp_birthPlace (horoscopeProfiles s' ! i) =
                      (case up_birthPlace ui of None \<Rightarrow> hp_birthPlace (horoscopeProfiles s ! i)
                                              | Some v \<Rightarrow> Some v)
                  \<and> hp_zodiacSign (horoscopeProfiles s' ! i) =
                      (case up_zodiacSign ui of None \<Rightarrow> hp_zodiacSign (horoscopeProfiles s ! i)
                                              | Some v \<Rightarrow> Some v)
                  \<and> hp_preferredLanguage (horoscopeProfiles s' ! i) =
                      (case up_preferredLanguage ui of
                         None \<Rightarrow> hp_preferredLanguage (horoscopeProfiles s ! i)
                       | Some v \<Rightarrow> Some v)
                  \<and> hp_notes (horoscopeProfiles s' ! i) =
                      (case up_notes ui of None \<Rightarrow> hp_notes (horoscopeProfiles s ! i)
                                         | Some v \<Rightarrow> Some v)
               else horoscopeProfiles s' ! i = horoscopeProfiles s ! i))"
  unfolding updateProfile_owned [OF assms]
  by (simp add: apply_profile_updates_def set_nullable_def set_required_def)

theorem updateProfile_writes_supplied_fields_only_witness:
  "\<exists>s'. updateProfile ex_updateProfile (ex_ctx ''U1'') 200 ex_store = (Inr ''P1'', s')
      \<and> horoscopeProfiles s' =
          [ex_profile\<lparr>hp_name := Some ''Me'', hp_notes := Some [], hp_updatedAt := 200\<rparr>]
      \<and> dailyHoroscopes s' = dailyHoroscopes ex_store
      \<and> horoscopeViews s' = horoscopeViews ex_store"
proof -
  have c: "ctx_locals (ex_ctx ''U1'') = Some \<lparr>locals_user = Some \<lparr>user_id = ''U1''\<rparr>\<rparr>"
    by (simp add: ex_ctx_def)
  have u: "locals_user \<lparr>locals_user = Some \<lparr>user_id = ''U1''\<rparr>\<rparr> = Some \<lparr>user_id = ''U1''\<rparr>"
    by simp
  have own: "\<exists>r \<in> set (horoscopeProfiles ex_store).
               hp_id r = up_id ex_updateProfile \<and> hp_userId r = user_id \<lparr>user_id = ''U1''\<rparr>"
    by (simp add: ex_store_def ex_profile_def ex_updateProfile_def)
  from updateProfile_writes_supplied_fields_only [OF c u own, of 200]
  obtain s' where r: "updateProfile ex_updateProfile (ex_ctx ''U1'') 200 ex_store =
      (Inr (up_id ex_updateProfile), s')"
    and t: "dailyHoroscopes s' = dailyHoroscopes ex_store"
           "horoscopeViews s' = horoscopeViews ex_store"
    and n: "length (horoscopeProfiles s') = length (horoscopeProfiles ex_store)"
    and f: "\<forall>i < length (horoscopeProfiles ex_store).
             hp_id (horoscopeProfiles s' ! i) = hp_id (horoscopeProfiles ex_store ! i)
           \<and> hp_userId (horoscopeProfiles s' ! i) = hp_userId (horoscopeProfiles ex_store ! i)
           \<and> hp_createdAt (horoscopeProfiles s' ! i) = hp_createdAt (horoscopeProfiles ex_store ! i)
           \<and> (if hp_id (horoscopeProfiles ex_store ! i) = up_id ex_updateProfile
                  \<and> hp_userId (horoscopeProfiles ex_store ! i) = user_id \<lparr>user_id = ''U1''\<rparr>
               then hp_updatedAt (horoscopeProfiles s' ! i) = 200
                  \<and> hp_name (horoscopeProfiles s' ! i) =
                      (case up_name ex_updateProfile of None \<Rightarrow> hp_name (horoscopeProfiles ex_store ! i)
                                        | Some v \<Rightarrow> Some v)
                  \<and> hp_birthDate (horoscopeProfiles s' ! i) =
                      (case up_birthDate ex_updateProfile of None \<Rightarrow> hp_birthDate (horoscopeProfiles ex_store ! i)
                                             | Some v \<Rightarrow> Some v)
                  \<and> hp_birthTime (horoscopeProfiles s' ! i) =
                      (case up_birthTime ex_updateProfile of None \<Rightarrow> hp_birthTime (horoscopeProfiles ex_store ! i)
                                             | Some v \<Rightarrow> Some v)
                  \<and> hp_birthPlace (horoscopeProfiles s' ! i) =
                      (case up_birthPlace ex_updateProfile of None \<Rightarrow> hp_birthPlace (horoscopeProfiles ex_store ! i)
                                              | Some v \<Rightarrow> Some v)
                  \<and> hp_zodiacSign (horoscopeProfiles s' ! i) =
                      (case up_zodiacSign ex_updateProfile of None \<Rightarrow> hp_zodiacSign (horoscopeProfiles ex_store ! i)
                                              | Some v \<Rightarrow> Some v)
                  \<and> hp_preferredLanguage (horoscopeProfiles s' ! i) =
                      (case up_preferredLanguage ex_updateProfile of
                         None \<Rightarrow> hp_preferredLanguage (horoscopeProfiles ex_store ! i)
                       | Some v \<Rightarrow> Some v)
                  \<and> hp_notes (horoscopeProfiles s' ! i) =
                      (case up_notes ex_updateProfile of None \<Rightarrow> hp_notes (horoscopeProfiles ex_store ! i)
                                         | Some v \<Rightarrow> Some v)
               else horoscopeProfiles s' ! i = horoscopeProfiles ex_store ! i)"
    by blast
  from n obtain p where p: "horoscopeProfiles s' = [p]"
    by (cases "horoscopeProfiles s'") (auto simp: ex_store_def)
  from f have "p = ex_profile\<lparr>hp_name := Some ''Me'', hp_notes := Some [], hp_updatedAt := 200\<rparr>"
    by (simp add: p ex_store_def ex_profile_def ex_updateProfile_def)
  with r t p show ?thesis by (simp add: ex_updateProfile_def)
qed

lemma listProfiles_signed_in:
  assumes "ctx_locals ctx = Some l" and "locals_user l = Some u"
  shows "listProfiles li ctx s =
           (Inr \<lparr>lp_items = filter (\<lambda>r. hp_userId r = user_id u) (horoscopeProfiles s),
                 lp_total = length (filter (\<lambda>r. hp_userId r = user_id u) (horoscopeProfiles s))\<rparr>,
            logged (OpSelect HoroscopeProfiles) s)"
  unfolding listProfiles_def requireUser_signed_in [OF assms] sum.case
  by (simp add: select_HoroscopeProfiles_def limit_def eq_def)

text \<open>
  C6. For a signed-in caller and an identifier that \<^verbatim>\<open>crypto.randomUUID()\<close> draws
  fresh (no profile row has it yet), \<^verbatim>\<open>createProfile\<close> succeeds and returns that
  identifier; it appends one profile whose owner is the caller and whose \<^verbatim>\<open>createdAt\<close>
  and \<^verbatim>\<open>updatedAt\<close> are the same clock reading. In the store it leaves,
  \<^verbatim>\<open>listProfiles\<close> of any signed-in caller succeeds, and the identifier is among the
  listed items exactly when that caller is the creator.
\<close>

theorem createProfile_listed_for_caller_only:
  assumes "ctx_locals ctx = Some l" and "locals_user l = Some u"
    and "uuid \<notin> set (map hp_id (horoscopeProfiles s))"
  shows "\<exists>s'. createProfile cp ctx now uuid s = (Inr uuid, s')
       \<and> horoscopeProfiles s' =
           horoscopeProfiles s @
             [\<lparr>hp_id = uuid, hp_userId = user_id u, hp_name = cp_name cp,
               hp_birthDate = cp_birthDate cp, hp_birthTime = cp_birthTime cp,
               hp_birthPlace = cp_birthPlace cp, hp_zodiacSign = cp_zodiacSign cp,
               hp_preferredLanguage = cp_preferredLanguage cp, hp_notes = cp_notes cp,
               hp_createdAt = now, hp_updatedAt = now\<rparr>]
       \<and> dailyHoroscopes s' = dailyHoroscopes s
       \<and> horoscopeViews s' = horoscopeViews s
       \<and> (\<forall>ctx' l' u'. ctx_locals ctx' = Some l' \<and> locals_user l' = Some u' \<longrightarrow>
             (\<exists>d s''. listProfiles li ctx' s' = (Inr d, s'')
                \<and> lp_total d = length (lp_items d)
                \<and> (uuid \<in> set (map hp_id (lp_items d))) = (user_id u' = user_id u)))"
proof -
  let ?row = "\<lparr>hp_id = uuid, hp_userId = user_id u, hp_name = cp_name cp,
               hp_birthDate = cp_birthDate cp, hp_birthTime = cp_birthTime cp,
               hp_birthPlace = cp_birthPlace cp, hp_zodiacSign = cp_zodiacSign cp,
               hp_preferredLanguage = cp_preferredLanguage cp, hp_notes = cp_notes cp,
               hp_createdAt = now, hp_updatedAt = now\<rparr>"
  let ?s' = "(logged (OpInsert HoroscopeProfiles) s)
               \<lparr>horoscopeProfiles := horoscopeProfiles s @ [?row]\<rparr>"
  have run: "createProfile cp ctx now uuid s = (Inr uuid, ?s')"
    unfolding createProfile_def requireUser_signed_in [OF assms(1,2)] sum.case
    using assms(3) by (simp add: insert_HoroscopeProfiles_def)
  have tables: "horoscopeProfiles ?s' = horoscopeProfiles s @ [?row]"
    "dailyHoroscopes ?s' = dailyHoroscopes s" "horoscopeViews ?s' = horoscopeViews s"
    by (simp_all add: logged_def)
  have listed: "\<exists>d s''. listProfiles li ctx' ?s' = (Inr d, s'')
                \<and> lp_total d = length (lp_items d)
                \<and> (uuid \<in> set (map hp_id (lp_items d))) = (user_id u' = user_id u)"
    if "ctx_locals ctx' = Some l'" and "locals_user l' = Some u'" for ctx' l' u'
    unfolding listProfiles_signed_in [OF that] using assms(3)
    by (auto simp: logged_def)
  from run tables listed show ?thesis by blast
qed

theorem createProfile_listed_for_caller_only_witness:
  "\<exists>s' d1 d2 t1 t2. createProfile ex_createProfile (ex_ctx ''U2'') 300 ''P2'' ex_store = (Inr ''P2'', s')
     \<and> listProfiles None (ex_ctx ''U2'') s' = (Inr d1, t1)
     \<and> map hp_id (lp_items d1) = [''P2'']
     \<and> map hp_createdAt (lp_items d1) = [300]
     \<and> map hp_updatedAt (lp_items d1) = [300]
     \<and> listProfiles None (ex_ctx ''U1'') s' = (Inr d2, t2)
     \<and> map hp_id (lp_items d2) = [''P1'']"
proof -
  have c: "ctx_locals (ex_ctx ''U2'') = Some \<lparr>locals_user = Some \<lparr>user_id = ''U2''\<rparr>\<rparr>"
    by (simp add: ex_ctx_def)
  have u: "locals_user \<lparr>locals_user = Some \<lparr>user_id = ''U2''\<rparr>\<rparr> = Some \<lparr>user_id = ''U2''\<rparr>"
    by simp
  have fresh: "''P2'' \<notin> set (map hp_id (horoscopeProfiles ex_store))"
    by (simp add: ex_store_def ex_profile_def)
  from createProfile_listed_for_caller_only [OF c u fresh, of ex_createProfile 300 None]
  obtain s' where r: "createProfile ex_createProfile (ex_ctx ''U2'') 300 ''P2'' ex_store = (Inr ''P2'', s')"
    and rows: "horoscopeProfiles s' =
           horoscopeProfiles ex_store @
             [\<lparr>hp_id = ''P2'', hp_userId = user_id \<lparr>user_id = ''U2''\<rparr>, hp_name = cp_name ex_createProfile,
               hp_birthDate = cp_birthDate ex_createProfile, hp_birthTime = cp_birthTime ex_createProfile,
               hp_birthPlace = cp_birthPlace ex_createProfile, hp_zodiacSign = cp_zodiacSign ex_createProfile,
               hp_preferredLanguage = cp_preferredLanguage ex_createProfile, hp_notes = cp_notes ex_createProfile,
               hp_createdAt = 300, hp_updatedAt = 300\<rparr>]"
    by blast
  have l2: "listProfiles None (ex_ctx ''U2'') s' =
      (Inr \<lparr>lp_items = filter (\<lambda>r. hp_userId r = ''U2'') (horoscopeProfiles s'),
            lp_total = length (filter (\<lambda>r. hp_userId r = ''U2'') (horoscopeProfiles s'))\<rparr>,
       logged (OpSelect HoroscopeProfiles) s')"
    using listProfiles_signed_in [OF c u, of None s'] by simp
  have c1: "ctx_locals (ex_ctx ''U1'') = Some \<lparr>locals_user = Some \<lparr>user_id = ''U1''\<rparr>\<rparr>"
    by (simp add: ex_ctx_def)
  have u1: "locals_user \<lparr>locals_user = Some \<lparr>user_id = ''U1''\<rparr>\<rparr> = Some \<lparr>user_id = ''U1''\<rparr>"
    by simp
  have l1: "listProfiles None (ex_ctx ''U1'') s' =
      (Inr \<lparr>lp_items = filter (\<lambda>r. hp_userId r = ''U1'') (horoscopeProfiles s'),
            lp_total = length (filter (\<lambda>r. hp_userId r = ''U1'') (horoscopeProfiles s'))\<rparr>,
       logged (OpSelect HoroscopeProfiles) s')"
    using listProfiles_signed_in [OF c1 u1, of None s'] by simp
  have mine: "map hp_id (filter (\<lambda>r. hp_userId r = ''U2'') (horoscopeProfiles s')) = [''P2'']"
    "map hp_createdAt (filter (\<lambda>r. hp_userId r = ''U2'') (horoscopeProfiles s')) = [300]"
    "map hp_updatedAt (filter (\<lambda>r. hp_userId r = ''U2'') (horoscopeProfiles s')) = [300]"
    unfolding rows by (simp_all add: ex_store_def ex_profile_def)
  have theirs: "map hp_id (filter (\<lambda>r. hp_userId r = ''U1'') (horoscopeProfiles s')) = [''P1'']"
    unfolding rows by (simp add: ex_store_def ex_profile_def)
  from r l2 l1 mine theirs show ?thesis by simp
qed

section \<open>Horoscope queries\<close>

lemma at0_case: "at0 rows = (case rows of [] \<Rightarrow> None | r # _ \<Rightarrow> Some r)"
  by (cases rows) simp_all

lemma getDailyHoroscope_conditions:
  "(if length (if truthy lang
               then [eq dh_zodiacSign sign, eq dh_horoscopeDate target] @ [eq dh_language lang]
               else [eq dh_zodiacSign sign, eq dh_horoscopeDate target]) = 1
    then (if truthy lang
          then [eq dh_zodiacSign sign, eq dh_horoscopeDate target] @ [eq dh_language lang]
          else [eq dh_zodiacSign sign, eq dh_horoscopeDate target]) ! 0
    else and_all (if truthy lang
                  then [eq dh_zodiacSign sign, eq dh_horoscopeDate target] @ [eq dh_language lang]
                  else [eq dh_zodiacSign sign, eq dh_horoscopeDate target])) =
   (\<lambda>r. dh_zodiacSign r = sign \<and> dh_horoscopeDate r = target
        \<and> (\<not> truthy lang \<or> dh_language r = lang))"
  by (auto simp: and_all_def eq_def fun_eq_iff)

lemma getDailyHoroscope_result:
  "getDailyHoroscope inp ctx now s =
     (case filter (\<lambda>r. dh_zodiacSign r = gd_zodiacSign inp
                     \<and> dh_horoscopeDate r =
                         (case gd_horoscopeDate inp of None \<Rightarrow> now | Some d \<Rightarrow> d)
                     \<and> (\<not> truthy (gd_language inp) \<or> dh_language r = gd_language inp))
             (dailyHoroscopes s) of
        [] \<Rightarrow> Inl (ActionError NOT_FOUND ''No horoscope found for the given sign and date.'')
      | r # _ \<Rightarrow> Inr r,
      s\<lparr>accesses := accesses s @ [OpSelect DailyHoroscopes]\<rparr>)"
  unfolding getDailyHoroscope_def Let_def getDailyHoroscope_conditions
    select_DailyHoroscopes_def option.case prod.case at0_limit_1 logged_def
  by (simp add: at0_case split: list.split)

text \<open>
  C3. \<^verbatim>\<open>getDailyHoroscope\<close> looks for the rows whose sign is the input's, whose date
  is the input's date or, when the input has none, the current clock reading, and whose
  language is the input's when that is a non-empty string. It throws \<^verbatim>\<open>NOT_FOUND\<close>
  exactly when no row matches, and otherwise returns the first matching row in the
  order of the store. It changes no row.
\<close>

theorem getDailyHoroscope_first_match_or_not_found:
  "let targetDate = (case gd_horoscopeDate inp of None \<Rightarrow> now | Some d \<Rightarrow> d);
       matching = filter (\<lambda>r. dh_zodiacSign r = gd_zodiacSign inp
                             \<and> dh_horoscopeDate r = targetDate
                             \<and> (truthy (gd_language inp) \<longrightarrow> dh_language r = gd_language inp))
                    (dailyHoroscopes s);
       outcome = fst (getDailyHoroscope inp ctx now s)
   in ((\<exists>e. outcome = Inl e) = (matching = []))
    \<and> (matching = [] \<longrightarrow>
          outcome = Inl (ActionError NOT_FOUND
                           ''No horoscope found for the given sign and date.''))
    \<and> (\<forall>r rest. matching = r # rest \<longrightarrow> outcome = Inr r)
    \<and> dailyHoroscopes (snd (getDailyHoroscope inp ctx now s)) = dailyHoroscopes s"
proof -
  have same: "(\<lambda>r. dh_zodiacSign r = gd_zodiacSign inp
                 \<and> dh_horoscopeDate r =
                     (case gd_horoscopeDate inp of None \<Rightarrow> now | Some d \<Rightarrow> d)
                 \<and> (truthy (gd_language inp) \<longrightarrow> dh_language r = gd_language inp)) =
              (\<lambda>r. dh_zodiacSign r = gd_zodiacSign inp
                 \<and> dh_horoscopeDate r =
                     (case gd_horoscopeDate inp of None \<Rightarrow> now | Some d \<Rightarrow> d)
                 \<and> (\<not> truthy (gd_language inp) \<or> dh_language r = gd_language inp))"
    by auto
  show ?thesis
    unfolding Let_def same getDailyHoroscope_result
    by (simp split: list.split)
qed

theorem getDailyHoroscope_first_match_or_not_found_witness:
  "fst (getDailyHoroscope ex_getDailyHoroscope ex_anonymous 1704067200000 ex_store) =
     Inr (ex_horoscope ''H1'' ''first'')
   \<and> fst (getDailyHoroscope ex_getDailyHoroscope ex_anonymous 1704067200001 ex_store) =
     Inl (ActionError NOT_FOUND ''No horoscope found for the given sign and date.'')"
proof -
  have two: "filter (\<lambda>r. dh_zodiacSign r = gd_zodiacSign ex_getDailyHoroscope
               \<and> dh_horoscopeDate r =
                   (case gd_horoscopeDate ex_getDailyHoroscope of
                      None \<Rightarrow> 1704067200000 | Some d \<Rightarrow> d)
               \<and> (truthy (gd_language ex_getDailyHoroscope) \<longrightarrow>
                     dh_language r = gd_language ex_getDailyHoroscope))
             (dailyHoroscopes ex_store) =
           [ex_horoscope ''H1'' ''first'', ex_horoscope ''H2'' ''second'']"
    by (simp add: ex_store_def ex_horoscope_def ex_getDailyHoroscope_def)
  have none: "filter (\<lambda>r. dh_zodiacSign r = gd_zodiacSign ex_getDailyHoroscope
               \<and> dh_horoscopeDate r =
                   (case gd_horoscopeDate ex_getDailyHoroscope of
                      None \<Rightarrow> 1704067200001 | Some d \<Rightarrow> d)
               \<and> (truthy (gd_language ex_getDailyHoroscope) \<longrightarrow>
                     dh_language r = gd_language ex_getDailyHoroscope))
             (dailyHoroscopes ex_store) = []"
    by (simp add: ex_store_def ex_horoscope_def ex_getDailyHoroscope_def)
  from getDailyHoroscope_first_match_or_not_found
         [where inp = ex_getDailyHoroscope and now = 1704067200000 and s = ex_store
            and ctx = ex_anonymous]
  have first: "fst (getDailyHoroscope ex_getDailyHoroscope ex_anonymous 1704067200000 ex_store) =
     Inr (ex_horoscope ''H1'' ''first'')"
    unfolding Let_def two by blast
  from getDailyHoroscope_first_match_or_not_found
         [where inp = ex_getDailyHoroscope and now = 1704067200001 and s = ex_store
            and ctx = ex_anonymous]
  have absent: "fst (getDailyHoroscope ex_getDailyHoroscope ex_anonymous 1704067200001 ex_store) =
     Inl (ActionError NOT_FOUND ''No horoscope found for the given sign and date.'')"
    unfolding Let_def none by blast
  from first absent show ?thesis by blast
qed

text \<open>
  C10. An empty-string \<^verbatim>\<open>language\<close> in \<^verbatim>\<open>getDailyHoroscope\<close>, and an empty-string
  \<^verbatim>\<open>zodiacSign\<close> or \<^verbatim>\<open>language\<close> in \<^verbatim>\<open>listDailyHoroscopes\<close>, adds no condition:
  the call gives the result and the store of the same call with the field omitted.
\<close>

theorem empty_string_filter_is_no_filter:
  "getDailyHoroscope (gd\<lparr>gd_language := Some ''''\<rparr>) ctx now s =
     getDailyHoroscope (gd\<lparr>gd_language := None\<rparr>) ctx now s
   \<and> listDailyHoroscopes (Some (ld\<lparr>ld_zodiacSign := Some ''''\<rparr>)) ctx s =
     listDailyHoroscopes (Some (ld\<lparr>ld_zodiacSign := None\<rparr>)) ctx s
   \<and> listDailyHoroscopes (Some (ld\<lparr>ld_language := Some ''''\<rparr>)) ctx s =
     listDailyHoroscopes (Some (ld\<lparr>ld_language := None\<rparr>)) ctx s"
proof -
  have g: "getDailyHoroscope (gd\<lparr>gd_language := Some ''''\<rparr>) ctx now s =
     getDailyHoroscope (gd\<lparr>gd_language := None\<rparr>) ctx now s"
    by (simp add: getDailyHoroscope_def)
  have z: "listDailyHoroscopes (Some (ld\<lparr>ld_zodiacSign := Some ''''\<rparr>)) ctx s =
     listDailyHoroscopes (Some (ld\<lparr>ld_zodiacSign := None\<rparr>)) ctx s"
    by (simp add: listDailyHoroscopes_def)
  have l: "listDailyHoroscopes (Some (ld\<lparr>ld_language := Some ''''\<rparr>)) ctx s =
     listDailyHoroscopes (Some (ld\<lparr>ld_language := None\<rparr>)) ctx s"
    by (simp add: listDailyHoroscopes_def)
  from g z l show ?thesis by blast
qed

section \<open>Shared horoscope content\<close>

lemma hu_horoscopeDate_key:
  "(if v \<noteq> None
    then \<lparr>hu_horoscopeDate = None, hu_zodiacSign = b, hu_language = c,
       hu_generalText = d, hu_loveText = e, hu_careerText = f,
       hu_healthText = g, hu_luckyNumber = h,
       hu_luckyColor = i, hu_mood = j\<rparr>
         \<lparr>hu_horoscopeDate := v\<rparr>
    else \<lparr>hu_horoscopeDate = None, hu_zodiacSign = b, hu_language = c,
       hu_generalText = d, hu_loveText = e, hu_careerText = f,
       hu_healthText = g, hu_luckyNumber = h,
       hu_luckyColor = i, hu_mood = j\<rparr>) =
   \<lparr>hu_horoscopeDate = v, hu_zodiacSign = b, hu_language = c,
       hu_generalText = d, hu_loveText = e, hu_careerText = f,
       hu_healthText = g, hu_luckyNumber = h,
       hu_luckyColor = i, hu_mood = j\<rparr>"
  by (cases v) simp_all

lemma hu_zodiacSign_key:
  "(if v \<noteq> None
    then \<lparr>hu_horoscopeDate = a, hu_zodiacSign = None, hu_language = c,
       hu_generalText = d, hu_loveText = e, hu_careerText = f,
       hu_healthText = g, hu_luckyNumber = h,
       hu_luckyColor = i, hu_mood = j\<rparr>
         \<lparr>hu_zodiacSign := v\<rparr>
    else \<lparr>hu_horoscopeDate = a, hu_zodiacSign = None, hu_language = c,
       hu_generalText = d, hu_loveText = e, hu_careerText = f,
       hu_healthText = g, hu_luckyNumber = h,
       hu_luckyColor = i, hu_mood = j\<rparr>) =
   \<lparr>hu_horoscopeDate = a, hu_zodiacSign = v, hu_language = c,
       hu_generalText = d, hu_loveText = e, hu_careerText = f,
       hu_healthText = g, hu_luckyNumber = h,
       hu_luckyColor = i, hu_mood = j\<rparr>"
  by (cases v) simp_all

lemma hu_language_key:
  "(if v \<noteq> None
    then \<lparr>hu_horoscopeDate = a, hu_zodiacSign = b, hu_language = None,
       hu_generalText = d, hu_loveText = e, hu_careerText = f,
       hu_healthText = g, hu_luckyNumber = h,
       hu_luckyColor = i, hu_mood = j\<rparr>
         \<lparr>hu_language := v\<rparr>
    else \<lparr>hu_horoscopeDate = a, hu_zodiacSign = b, hu_language = None,
       hu_generalText = d, hu_loveText = e, hu_careerText = f,
       hu_healthText = g, hu_luckyNumber = h,
       hu_luckyColor = i, hu_mood = j\<rparr>) =
   \<lparr>hu_horoscopeDate = a, hu_zodiacSign = b, hu_language = v,
       hu_generalText = d, hu_loveText = e, hu_careerText = f,
       hu_healthText = g, hu_luckyNumber = h,
       hu_luckyColor = i, hu_mood = j\<rparr>"
  by (cases v) simp_all

lemma hu_generalText_key:
  "(if v \<noteq> None
    then \<lparr>hu_horoscopeDate = a, hu_zodiacSign = b, hu_language = c,
       hu_generalText = None, hu_loveText = e, hu_careerText = f,
       hu_healthText = g, hu_luckyNumber = h,
       hu_luckyColor = i, hu_mood = j\<rparr>
         \<lparr>hu_generalText := v\<rparr>
    else \<lparr>hu_horoscopeDate = a, hu_zodiacSign = b, hu_language = c,
       hu_generalText = None, hu_loveText = e, hu_careerText = f,
       hu_healthText = g, hu_luckyNumber = h,
       hu_luckyColor = i, hu_mood = j\<rparr>) =
   \<lparr>hu_horoscopeDate = a, hu_zodiacSign = b, hu_language = c,
       hu_generalText = v, hu_loveText = e, hu_careerText = f,
       hu_healthText = g, hu_luckyNumber = h,
       hu_luckyColor = i, hu_mood = j\<rparr>"
  by (cases v) simp_all

lemma hu_loveText_key:
  "(if v \<noteq> None
    then \<lparr>hu_horoscopeDate = a, hu_zodiacSign = b, hu_language = c,
       hu_generalText = d, hu_loveText = None, hu_careerText = f,
       hu_healthText = g, hu_luckyNumber = h,
       hu_luckyColor = i, hu_mood = j\<rparr>
         \<lparr>hu_loveText := v\<rparr>
    else \<lparr>hu_horoscopeDate = a, hu_zodiacSign = b, hu_language = c,
       hu_generalText = d, hu_loveText = None, hu_careerText = f,
       hu_healthText = g, hu_luckyNumber = h,
       hu_luckyColor = i, hu_mood = j\<rparr>) =
   \<lparr>hu_horoscopeDate = a, hu_zodiacSign = b, hu_language = c,
       hu_generalText = d, hu_loveText = v, hu_careerText = f,
       hu_healthText = g, hu_luckyNumber = h,
       hu_luckyColor = i, hu_mood = j\<rparr>"
  by (cases v) simp_all

lemma hu_careerText_key:
  "(if v \<noteq> None
    then \<lparr>hu_horoscopeDate = a, hu_zodiacSign = b, hu_language = c,
       hu_generalText = d, hu_loveText = e, hu_careerText = None,
       hu_healthText = g, hu_luckyNumber = h,
       hu_luckyColor = i, hu_mood = j\<rparr>
         \<lparr>hu_careerText := v\<rparr>
    else \<lparr>hu_horoscopeDate = a, hu_zodiacSign = b, hu_language = c,
       hu_generalText = d, hu_loveText = e, hu_careerText = None,
       hu_healthText = g, hu_luckyNumber = h,
       hu_luckyColor = i, hu_mood = j\<rparr>) =
   \<lparr>hu_horoscopeDate = a, hu_zodiacSign = b, hu_language = c,
       hu_generalText = d, hu_loveText = e, hu_careerText = v,
       hu_healthText = g, hu_luckyNumber = h,
       hu_luckyColor = i, hu_mood = j\<rparr>"
  by (cases v) simp_all

lemma hu_healthText_key:
  "(if v \<noteq> None
    then \<lparr>hu_horoscopeDate = a, hu_zodiacSign = b, hu_language = c,
       hu_generalText = d, hu_loveText = e, hu_careerText = f,
       hu_healthText = None, hu_luckyNumber = h,
       hu_luckyColor = i, hu_mood = j\<rparr>
         \<lparr>hu_healthText := v\<rparr>
    else \<lparr>hu_horoscopeDate = a, hu_zodiacSign = b, hu_language = c,
       hu_generalText = d, hu_loveText = e, hu_careerText = f,
       hu_healthText = None, hu_luckyNumber = h,
       hu_luckyColor = i, hu_mood = j\<rparr>) =
   \<lparr>hu_horoscopeDate = a, hu_zodiacSign = b, hu_language = c,
       hu_generalText = d, hu_loveText = e, hu_careerText = f,
       hu_healthText = v, hu_luckyNumber = h,
       hu_luckyColor = i, hu_mood = j\<rparr>"
  by (cases v) simp_all

lemma hu_luckyNumber_key:
  "(if v \<noteq> None
    then \<lparr>hu_horoscopeDate = a, hu_zodiacSign = b, hu_language = c,
       hu_generalText = d, hu_loveText = e, hu_careerText = f,
       hu_healthText = g, hu_luckyNumber = None,
       hu_luckyColor = i, hu_mood = j\<rparr>
         \<lparr>hu_luckyNumber := v\<rparr>
    else \<lparr>hu_horoscopeDate = a, hu_zodiacSign = b, hu_language = c,
       hu_generalText = d, hu_loveText = e, hu_careerText = f,
       hu_healthText = g, hu_luckyNumber = None,
       hu_luckyColor = i, hu_mood = j\<rparr>) =
   \<lparr>hu_horoscopeDate = a, hu_zodiacSign = b, hu_language = c,
       hu_generalText = d, hu_loveText = e, hu_careerText = f,
       hu_healthText = g, hu_luckyNumber = v,
       hu_luckyColor = i, hu_mood = j\<rparr>"
  by (cases v) simp_all

lemma hu_luckyColor_key:
  "(if v \<noteq> None
    then \<lparr>hu_horoscopeDate = a, hu_zodiacSign = b, hu_language = c,
       hu_generalText = d, hu_loveText = e, hu_careerText = f,
       hu_healthText = g, hu_luckyNumber = h,
       hu_luckyColor = None, hu_mood = j\<rparr>
         \<lparr>hu_luckyColor := v\<rparr>
    else \<lparr>hu_horoscopeDate = a, hu_zodiacSign = b, hu_language = c,
       hu_generalText = d, hu_loveText = e, hu_careerText = f,
       hu_healthText = g, hu_luckyNumber = h,
       hu_luckyColor = None, hu_mood = j\<rparr>) =
   \<lparr>hu_horoscopeDate = a, hu_zodiacSign = b, hu_language = c,
       hu_generalText = d, hu_loveText = e, hu_careerText = f,
       hu_healthText = g, hu_luckyNumber = h,
       hu_luckyColor = v, hu_mood = j\<rparr>"
  by (cases v) simp_all

lemma hu_mood_key:
  "(if v \<noteq> None
    then \<lparr>hu_horoscopeDate = a, hu_zodiacSign = b, hu_language = c,
       hu_generalText = d, hu_loveText = e, hu_careerText = f,
       hu_healthText = g, hu_luckyNumber = h,
       hu_luckyColor = i, hu_mood = None\<rparr>
         \<lparr>hu_mood := v\<rparr>
    else \<lparr>hu_horoscopeDate = a, hu_zodiacSign = b, hu_language = c,
       hu_generalText = d, hu_loveText = e, hu_careerText = f,
       hu_healthText = g, hu_luckyNumber = h,
       hu_luckyColor = i, hu_mood = None\<rparr>) =
   \<lparr>hu_horoscopeDate = a, hu_zodiacSign = b, hu_language = c,
       hu_generalText = d, hu_loveText = e, hu_careerText = f,
       hu_healthText = g, hu_luckyNumber = h,
       hu_luckyColor = i, hu_mood = v\<rparr>"
  by (cases v) simp_all

lemmas horoscope_update_keys =
  hu_horoscopeDate_key hu_zodiacSign_key hu_language_key hu_generalText_key
  hu_loveText_key hu_careerText_key hu_healthText_key hu_luckyNumber_key
  hu_luckyColor_key hu_mood_key

lemma select_by_id:
  "select_DailyHoroscopes (Some (eq dh_id hid)) (Some 1) s =
     (limit (Some 1) (filter (\<lambda>r. dh_id r = hid) (dailyHoroscopes s)),
      logged (OpSelect DailyHoroscopes) s)"
  by (simp add: select_DailyHoroscopes_def eq_def)

lemma Let_pair: "Let (a, b) body = body (a, b)"
  by (simp add: Let_def)

lemma Let_None: "Let None body = body None"
  by (simp add: Let_def)

lemma Let_Some: "Let (Some a) body = body (Some a)"
  by (simp add: Let_def)

lemma Let_horoscope_updates:
  "Let \<lparr>hu_horoscopeDate = a, hu_zodiacSign = b, hu_language = c, hu_generalText = d,
        hu_loveText = e, hu_careerText = f, hu_healthText = g, hu_luckyNumber = h,
        hu_luckyColor = i, hu_mood = j\<rparr> body =
   body \<lparr>hu_horoscopeDate = a, hu_zodiacSign = b, hu_language = c, hu_generalText = d,
         hu_loveText = e, hu_careerText = f, hu_healthText = g, hu_luckyNumber = h,
         hu_luckyColor = i, hu_mood = j\<rparr>"
  by (simp add: Let_def)

lemma no_horoscope_values_built:
  "no_horoscope_values
     \<lparr>hu_horoscopeDate = a, hu_zodiacSign = b, hu_language = c, hu_generalText = d,
      hu_loveText = e, hu_careerText = f, hu_healthText = g, hu_luckyNumber = h,
      hu_luckyColor = i, hu_mood = j\<rparr> =
   (a = None \<and> b = None \<and> c = None \<and> d = None \<and> e = None \<and> f = None \<and> g = None
    \<and> h = None \<and> i = None \<and> j = None)"
  by (simp add: no_horoscope_values_def)

lemma updateDailyHoroscope_missing:
  assumes "ctx_locals ctx = Some l" and "locals_user l = Some u"
    and "ud_id ud \<notin> set (map dh_id (dailyHoroscopes s))"
  shows "updateDailyHoroscope ud ctx s =
           (Inl (ActionError NOT_FOUND ''Daily horoscope not found.''),
            logged (OpSelect DailyHoroscopes) s)"
proof -
  from assms(3) have "filter (\<lambda>r. dh_id r = ud_id ud) (dailyHoroscopes s) = []"
    by (force simp: filter_empty_conv)
  then have x: "at0 (limit (Some 1) (filter (\<lambda>r. dh_id r = ud_id ud) (dailyHoroscopes s))) = None"
    unfolding at0_limit_1 by simp
  show ?thesis
    unfolding updateDailyHoroscope_def requireUser_signed_in [OF assms(1,2)] sum.case
      select_by_id Let_pair prod.case x Let_None option.case ..
qed

lemma updateDailyHoroscope_found:
  assumes "ctx_locals ctx = Some l" and "locals_user l = Some u"
    and "ud_id ud \<in> set (map dh_id (dailyHoroscopes s))"
    and "\<not> (ud_horoscopeDate ud = None \<and> ud_zodiacSign ud = None \<and> ud_language ud = None
            \<and> ud_generalText ud = None \<and> ud_loveText ud = None \<and> ud_careerText ud = None
            \<and> ud_healthText ud = None \<and> ud_luckyNumber ud = None \<and> ud_luckyColor ud = None
            \<and> ud_mood ud = None)"
  shows "updateDailyHoroscope ud ctx s =
           (Inr (ud_id ud),
            s\<lparr>accesses := accesses s @ [OpSelect DailyHoroscopes, OpUpdate DailyHoroscopes],
              dailyHoroscopes :=
                map (\<lambda>row. if dh_id row = ud_id ud
                          then apply_horoscope_updates
                                 \<lparr>hu_horoscopeDate = ud_horoscopeDate ud,
                                  hu_zodiacSign = ud_zodiacSign ud,
                                  hu_language = ud_language ud,
                                  hu_generalText = ud_generalText ud,
                                  hu_loveText = ud_loveText ud,
                                  hu_careerText = ud_careerText ud,
                                  hu_healthText = ud_healthText ud,
                                  hu_luckyNumber = ud_luckyNumber ud,
                                  hu_luckyColor = ud_luckyColor ud,
                                  hu_mood = ud_mood ud\<rparr> row
                          else row)
                  (dailyHoroscopes s)\<rparr>)"
proof -
  from assms(3) have "\<exists>r \<in> set (dailyHoroscopes s). dh_id r = ud_id ud"
    by auto
  from at0_filter_Some [OF this] obtain x where
    x: "at0 (limit (Some 1) (filter (\<lambda>r. dh_id r = ud_id ud) (dailyHoroscopes s))) = Some x" ..
  show ?thesis
    unfolding updateDailyHoroscope_def requireUser_signed_in [OF assms(1,2)] sum.case
      select_by_id Let_pair prod.case x Let_Some option.case
      Let_horoscope_updates horoscope_update_keys
      update_DailyHoroscopes_def no_horoscope_values_built
    using assms(4) by (simp add: logged_def eq_def)
qed

lemma updateDailyHoroscope_no_values:
  assumes "ctx_locals ctx = Some l" and "locals_user l = Some u"
    and "ud_id ud \<in> set (map dh_id (dailyHoroscopes s))"
    and "ud_horoscopeDate ud = None \<and> ud_zodiacSign ud = None \<and> ud_language ud = None
         \<and> ud_generalText ud = None \<and> ud_loveText ud = None \<and> ud_careerText ud = None
         \<and> ud_healthText ud = None \<and> ud_luckyNumber ud = None \<and> ud_luckyColor ud = None
         \<and> ud_mood ud = None"
  shows "updateDailyHoroscope ud ctx s =
           (Inl NoValuesToSet, s\<lparr>accesses := accesses s @ [OpSelect DailyHoroscopes]\<rparr>)"
proof -
  from assms(3) have "\<exists>r \<in> set (dailyHoroscopes s). dh_id r = ud_id ud"
    by auto
  from at0_filter_Some [OF this] obtain x where
    x: "at0 (limit (Some 1) (filter (\<lambda>r. dh_id r = ud_id ud) (dailyHoroscopes s))) = Some x" ..
  show ?thesis
    unfolding updateDailyHoroscope_def requireUser_signed_in [OF assms(1,2)] sum.case
      select_by_id Let_pair prod.case x Let_Some option.case
      Let_horoscope_updates horoscope_update_keys
      update_DailyHoroscopes_def no_horoscope_values_built
    using assms(4) by (simp add: logged_def)
qed

lemma updateDailyHoroscope_any_caller:
  assumes "ctx_locals ctx = Some l" and "locals_user l = Some u"
    and "ctx_locals ctx' = Some l'" and "locals_user l' = Some u'"
  shows "updateDailyHoroscope ud ctx s = updateDailyHoroscope ud ctx' s"
  unfolding updateDailyHoroscope_def requireUser_signed_in [OF assms(1,2)]
    requireUser_signed_in [OF assms(3,4)] sum.case ..

text \<open>
  C7. \<^verbatim>\<open>updateDailyHoroscope\<close> calls \<^verbatim>\<open>requireUser\<close> and drops the user, so any two
  signed-in callers get the same result (\<open>updateDailyHoroscope_any_caller\<close>); with no row
  of that identifier it throws \<^verbatim>\<open>NOT_FOUND\<close> (\<open>updateDailyHoroscope_missing\<close>), and
  with a row and at least one field supplied it succeeds and writes the supplied fields
  (\<open>updateDailyHoroscope_found\<close>). But the claim that it succeeds for every identifier
  of an existing row, and fails only with \<^verbatim>\<open>NOT_FOUND\<close>, breaks on the input that
  supplies the identifier alone, which the schema accepts: the \<^verbatim>\<open>updates\<close> object
  stays empty, \<^verbatim>\<open>set\<close> throws after the lookup, and the caller gets an internal error
  for a row that exists. (\<^verbatim>\<open>updateProfile\<close> cannot reach this: its object always has
  \<^verbatim>\<open>updatedAt\<close>.)
\<close>

theorem updateDailyHoroscope_identifier_alone_throws:
  "''H1'' \<in> set (map dh_id (dailyHoroscopes ex_store))
   \<and> updateDailyHoroscope
        \<lparr>ud_id = ''H1'', ud_horoscopeDate = None, ud_zodiacSign = None, ud_language = None,
         ud_generalText = None, ud_loveText = None, ud_careerText = None,
         ud_healthText = None, ud_luckyNumber = None, ud_luckyColor = None, ud_mood = None\<rparr>
        (ex_ctx ''U1'') ex_store =
       (Inl NoValuesToSet, ex_store\<lparr>accesses := [OpSelect DailyHoroscopes]\<rparr>)"
proof -
  have c: "ctx_locals (ex_ctx ''U1'') = Some \<lparr>locals_user = Some \<lparr>user_id = ''U1''\<rparr>\<rparr>"
    by (simp add: ex_ctx_def)
  have u: "locals_user \<lparr>locals_user = Some \<lparr>user_id = ''U1''\<rparr>\<rparr> = Some \<lparr>user_id = ''U1''\<rparr>"
    by simp
  have there: "''H1'' \<in> set (map dh_id (dailyHoroscopes ex_store))"
    by (simp add: ex_store_def ex_horoscope_def)
  have log: "accesses ex_store = []"
    by (simp add: ex_store_def)
  from there updateDailyHoroscope_no_values [OF c u, where s = ex_store and
      ud = "\<lparr>ud_id = ''H1'', ud_horoscopeDate = None, ud_zodiacSign = None, ud_language = None,
         ud_generalText = None, ud_loveText = None, ud_careerText = None,
         ud_healthText = None, ud_luckyNumber = None, ud_luckyColor = None, ud_mood = None\<rparr>"]
  show ?thesis by (simp add: log)
qed

lemma createDailyHoroscope_fresh:
  assumes "ctx_locals ctx = Some l" and "locals_user l = Some u"
    and "uuid \<notin> set (map dh_id (dailyHoroscopes s))"
  shows "createDailyHoroscope cd ctx now uuid s =
           (Inr \<lparr>cdd_id = uuid, cdd_ownerId = user_id u\<rparr>,
            (logged (OpInsert DailyHoroscopes) s)
              \<lparr>dailyHoroscopes := dailyHoroscopes s @
                 [\<lparr>dh_id = uuid, dh_horoscopeDate = cd_horoscopeDate cd,
                   dh_zodiacSign = cd_zodiacSign cd, dh_language = cd_language cd,
                   dh_generalText = cd_generalText cd, dh_loveText = cd_loveText cd,
                   dh_careerText = cd_careerText cd, dh_healthText = cd_healthText cd,
                   dh_luckyNumber = cd_luckyNumber cd, dh_luckyColor = cd_luckyColor cd,
                   dh_mood = cd_mood cd, dh_createdAt = now\<rparr>]\<rparr>)"
  unfolding createDailyHoroscope_def requireUser_signed_in [OF assms(1,2)] sum.case
  using assms(3) by (simp add: insert_DailyHoroscopes_def)

text \<open>
  C8. For a signed-in caller and a fresh identifier, \<^verbatim>\<open>createDailyHoroscope\<close> answers
  with the identifier and an \<^verbatim>\<open>ownerId\<close> equal to the caller's identifier. The row it
  appends is built from the input, the identifier and the clock alone (the row type has
  no owner column), so the store it leaves is the one any other signed-in caller would
  have left. In that store \<^verbatim>\<open>updateDailyHoroscope\<close> of the new row gives another
  signed-in caller what it gives the creator, and it succeeds whenever the update
  supplies a field.
\<close>

theorem createDailyHoroscope_ownerId_not_persisted:
  assumes "ctx_locals ctx = Some l" and "locals_user l = Some u"
    and "ctx_locals ctx' = Some l'" and "locals_user l' = Some u'"
    and "uuid \<notin> set (map dh_id (dailyHoroscopes s))"
    and "ud_id ud = uuid"
  shows "fst (createDailyHoroscope cd ctx now uuid s) =
           Inr \<lparr>cdd_id = uuid, cdd_ownerId = user_id u\<rparr>
       \<and> dailyHoroscopes (snd (createDailyHoroscope cd ctx now uuid s)) =
           dailyHoroscopes s @
             [\<lparr>dh_id = uuid, dh_horoscopeDate = cd_horoscopeDate cd,
               dh_zodiacSign = cd_zodiacSign cd, dh_language = cd_language cd,
               dh_generalText = cd_generalText cd, dh_loveText = cd_loveText cd,
               dh_careerText = cd_careerText cd, dh_healthText = cd_healthText cd,
               dh_luckyNumber = cd_luckyNumber cd, dh_luckyColor = cd_luckyColor cd,
               dh_mood = cd_mood cd, dh_createdAt = now\<rparr>]
       \<and> horoscopeProfiles (snd (createDailyHoroscope cd ctx now uuid s)) = horoscopeProfiles s
       \<and> horoscopeViews (snd (createDailyHoroscope cd ctx now uuid s)) = horoscopeViews s
       \<and> snd (createDailyHoroscope cd ctx now uuid s) =
           snd (createDailyHoroscope cd ctx' now uuid s)
       \<and> updateDailyHoroscope ud ctx' (snd (createDailyHoroscope cd ctx now uuid s)) =
           updateDailyHoroscope ud ctx (snd (createDailyHoroscope cd ctx now uuid s))
       \<and> (\<not> (ud_horoscopeDate ud = None \<and> ud_zodiacSign ud = None \<and> ud_language ud = None
              \<and> ud_generalText ud = None \<and> ud_loveText ud = None \<and> ud_careerText ud = None
              \<and> ud_healthText ud = None \<and> ud_luckyNumber ud = None
              \<and> ud_luckyColor ud = None \<and> ud_mood ud = None)
            \<longrightarrow> fst (updateDailyHoroscope ud ctx'
                       (snd (createDailyHoroscope cd ctx now uuid s))) = Inr uuid)"
proof -
  note mine = createDailyHoroscope_fresh [OF assms(1,2,5), of cd now]
  note theirs = createDailyHoroscope_fresh [OF assms(3,4,5), of cd now]
  have there: "ud_id ud \<in> set (map dh_id
                 (dailyHoroscopes (snd (createDailyHoroscope cd ctx now uuid s))))"
    unfolding mine by (simp add: assms(6))
  have edit: "fst (updateDailyHoroscope ud ctx' (snd (createDailyHoroscope cd ctx now uuid s))) =
           Inr uuid"
    if "\<not> (ud_horoscopeDate ud = None \<and> ud_zodiacSign ud = None \<and> ud_language ud = None
              \<and> ud_generalText ud = None \<and> ud_loveText ud = None \<and> ud_careerText ud = None
              \<and> ud_healthText ud = None \<and> ud_luckyNumber ud = None
              \<and> ud_luckyColor ud = None \<and> ud_mood ud = None)"
    unfolding updateDailyHoroscope_found [OF assms(3,4) there that] by (simp add: assms(6))
  have same: "updateDailyHoroscope ud ctx' (snd (createDailyHoroscope cd ctx now uuid s)) =
           updateDailyHoroscope ud ctx (snd (createDailyHoroscope cd ctx now uuid s))"
    by (rule updateDailyHoroscope_any_caller [OF assms(3,4,1,2)])
  have rest: "fst (createDailyHoroscope cd ctx now uuid s) =
           Inr \<lparr>cdd_id = uuid, cdd_ownerId = user_id u\<rparr>
       \<and> dailyHoroscopes (snd (createDailyHoroscope cd ctx now uuid s)) =
           dailyHoroscopes s @
             [\<lparr>dh_id = uuid, dh_horoscopeDate = cd_horoscopeDate cd,
               dh_zodiacSign = cd_zodiacSign cd, dh_language = cd_language cd,
               dh_generalText = cd_generalText cd, dh_loveText = cd_loveText cd,
               dh_careerText = cd_careerText cd, dh_healthText = cd_healthText cd,
               dh_luckyNumber = cd_luckyNumber cd, dh_luckyColor = cd_luckyColor cd,
               dh_mood = cd_mood cd, dh_createdAt = now\<rparr>]
       \<and> horoscopeProfiles (snd (createDailyHoroscope cd ctx now uuid s)) = horoscopeProfiles s
       \<and> horoscopeViews (snd (createDailyHoroscope cd ctx now uuid s)) = horoscopeViews s
       \<and> snd (createDailyHoroscope cd ctx now uuid s) =
           snd (createDailyHoroscope cd ctx' now uuid s)"
    unfolding mine theirs by (simp add: logged_def)
  from rest same edit show ?thesis by blast
qed

theorem createDailyHoroscope_ownerId_not_persisted_witness:
  "fst (createDailyHoroscope ex_createDailyHoroscope (ex_ctx ''U1'') 300 ''H3'' ex_store) =
     Inr \<lparr>cdd_id = ''H3'', cdd_ownerId = ''U1''\<rparr>
   \<and> snd (createDailyHoroscope ex_createDailyHoroscope (ex_ctx ''U1'') 300 ''H3'' ex_store) =
     snd (createDailyHoroscope ex_createDailyHoroscope (ex_ctx ''U2'') 300 ''H3'' ex_store)
   \<and> updateDailyHoroscope (ex_updateDailyHoroscope\<lparr>ud_id := ''H3''\<rparr>) (ex_ctx ''U2'')
        (snd (createDailyHoroscope ex_createDailyHoroscope (ex_ctx ''U1'') 300 ''H3'' ex_store)) =
     updateDailyHoroscope (ex_updateDailyHoroscope\<lparr>ud_id := ''H3''\<rparr>) (ex_ctx ''U1'')
        (snd (createDailyHoroscope ex_createDailyHoroscope (ex_ctx ''U1'') 300 ''H3'' ex_store))
   \<and> fst (updateDailyHoroscope (ex_updateDailyHoroscope\<lparr>ud_id := ''H3''\<rparr>) (ex_ctx ''U2'')
            (snd (createDailyHoroscope ex_createDailyHoroscope (ex_ctx ''U1'') 300 ''H3''
                    ex_store))) =
     Inr ''H3''"
proof -
  have c1: "ctx_locals (ex_ctx ''U1'') = Some \<lparr>locals_user = Some \<lparr>user_id = ''U1''\<rparr>\<rparr>"
    by (simp add: ex_ctx_def)
  have u1: "locals_user \<lparr>locals_user = Some \<lparr>user_id = ''U1''\<rparr>\<rparr> = Some \<lparr>user_id = ''U1''\<rparr>"
    by simp
  have c2: "ctx_locals (ex_ctx ''U2'') = Some \<lparr>locals_user = Some \<lparr>user_id = ''U2''\<rparr>\<rparr>"
    by (simp add: ex_ctx_def)
  have u2: "locals_user \<lparr>locals_user = Some \<lparr>user_id = ''U2''\<rparr>\<rparr> = Some \<lparr>user_id = ''U2''\<rparr>"
    by simp
  have fresh: "''H3'' \<notin> set (map dh_id (dailyHoroscopes ex_store))"
    by (simp add: ex_store_def ex_horoscope_def)
  have target: "ud_id (ex_updateDailyHoroscope\<lparr>ud_id := ''H3''\<rparr>) = ''H3''"
    by simp
  have supplied: "ud_mood (ex_updateDailyHoroscope\<lparr>ud_id := ''H3''\<rparr>) \<noteq> None"
    by (simp add: ex_updateDailyHoroscope_def)
  note all = createDailyHoroscope_ownerId_not_persisted
         [OF c1 u1 c2 u2 fresh target, of ex_createDailyHoroscope 300]
  from all have answer:
    "fst (createDailyHoroscope ex_createDailyHoroscope (ex_ctx ''U1'') 300 ''H3'' ex_store) =
       Inr \<lparr>cdd_id = ''H3'', cdd_ownerId = ''U1''\<rparr>"
    by simp
  from all supplied answer show ?thesis by blast
qed

section \<open>View log\<close>

lemma at0_take_Suc0: "at0 (take (Suc 0) rows) = at0 rows"
  by (cases rows) simp_all

lemma logHoroscopeView_profile_refused:
  assumes "ctx_locals ctx = Some l" and "locals_user l = Some u"
    and "lv_profileId lv = Some pid" and "pid \<noteq> []"
    and "\<not> (\<exists>r \<in> set (horoscopeProfiles s). hp_id r = pid \<and> hp_userId r = user_id u)"
  shows "logHoroscopeView lv ctx now uuid s =
           (Inl (ActionError FORBIDDEN ''Profile not found for this user.''),
            s\<lparr>accesses := accesses s @ [OpSelect HoroscopeProfiles]\<rparr>)"
proof -
  have none: "at0 (filter (\<lambda>r. hp_id r = pid \<and> hp_userId r = user_id u) (horoscopeProfiles s)) = None"
    using assms(5) by (simp add: at0_filter_None)
  show ?thesis
    using assms(3,4) none
    by (simp add: logHoroscopeView_def requireUser_signed_in [OF assms(1,2)]
          select_HoroscopeProfiles_def owned_cond limit_def at0_take_Suc0 logged_def)
qed

lemma logHoroscopeView_horoscope_missing:
  assumes "ctx_locals ctx = Some l" and "locals_user l = Some u"
    and "lv_dailyHoroscopeId lv = Some hid" and "hid \<noteq> []"
    and "hid \<notin> set (map dh_id (dailyHoroscopes s))"
    and "lv_profileId lv = None \<or> lv_profileId lv = Some []
         \<or> (\<exists>pid. lv_profileId lv = Some pid
               \<and> (\<exists>r \<in> set (horoscopeProfiles s). hp_id r = pid \<and> hp_userId r = user_id u))"
  shows "fst (logHoroscopeView lv ctx now uuid s) =
           Inl (ActionError NOT_FOUND ''Daily horoscope not found.'')
       \<and> horoscopeViews (snd (logHoroscopeView lv ctx now uuid s)) = horoscopeViews s
       \<and> horoscopeProfiles (snd (logHoroscopeView lv ctx now uuid s)) = horoscopeProfiles s
       \<and> dailyHoroscopes (snd (logHoroscopeView lv ctx now uuid s)) = dailyHoroscopes s"
proof -
  have none: "at0 (filter (\<lambda>r. dh_id r = hid) (dailyHoroscopes s)) = None"
    using assms(5) by (force simp: at0_filter_None)
  from assms(6) consider
      (absent) "lv_profileId lv = None"
    | (empty) "lv_profileId lv = Some []"
    | (owned) pid x where "lv_profileId lv = Some pid" "pid \<noteq> []"
        "at0 (filter (\<lambda>r. hp_id r = pid \<and> hp_userId r = user_id u) (horoscopeProfiles s)) = Some x"
    using at0_filter_None [of "\<lambda>r. hp_id r = pid \<and> hp_userId r = user_id u" "horoscopeProfiles s" for pid]
    by (cases "lv_profileId lv") (auto, fastforce)
  then show ?thesis
  proof cases
    case absent
    then show ?thesis
      using assms(3,4) none
      by (simp add: logHoroscopeView_def requireUser_signed_in [OF assms(1,2)]
            select_DailyHoroscopes_def eq_def limit_def at0_take_Suc0 logged_def)
  next
    case empty
    then show ?thesis
      using assms(3,4) none
      by (simp add: logHoroscopeView_def requireUser_signed_in [OF assms(1,2)]
            select_DailyHoroscopes_def eq_def limit_def at0_take_Suc0 logged_def)
  next
    case owned
    then show ?thesis
      using assms(3,4) none
      by (simp add: logHoroscopeView_def requireUser_signed_in [OF assms(1,2)]
            select_HoroscopeProfiles_def owned_cond
            select_DailyHoroscopes_def eq_def [of dh_id] limit_def at0_take_Suc0 logged_def)
  qed
qed

lemma logHoroscopeView_no_references:
  assumes "ctx_locals ctx = Some l" and "locals_user l = Some u"
    and "lv_profileId lv = None" and "lv_dailyHoroscopeId lv = None"
  shows "logHoroscopeView lv ctx now uuid s =
           (if uuid \<in> set (map hv_id (horoscopeViews s))
            then (Inl (PrimaryKeyViolation HoroscopeViews),
                  s\<lparr>accesses := accesses s @ [OpInsert HoroscopeViews]\<rparr>)
            else (Inr uuid,
                  s\<lparr>horoscopeViews := horoscopeViews s @
                       [\<lparr>hv_id = uuid, hv_profileId = None, hv_userId = user_id u,
                         hv_dailyHoroscopeId = None, hv_viewedAt = now,
                         hv_deviceInfo = lv_deviceInfo lv, hv_createdAt = now\<rparr>],
                    accesses := accesses s @ [OpInsert HoroscopeViews]\<rparr>))"
  using assms(3,4)
  by (simp add: logHoroscopeView_def requireUser_signed_in [OF assms(1,2)]
        insert_HoroscopeViews_def dangling_def logged_def)

lemma createProfile_keeps_identifiers_nonempty:
  assumes "uuid \<noteq> []" and "[] \<notin> set (map hp_id (horoscopeProfiles s))"
  shows "[] \<notin> set (map hp_id (horoscopeProfiles (snd (createProfile cp ctx now uuid s))))"
  using assms
  by (cases "requireUser ctx")
     (force simp: createProfile_def insert_HoroscopeProfiles_def logged_def Let_def
        split: if_splits)+

text \<open>
  The reference checks of \<^verbatim>\<open>logHoroscopeView\<close> run one after the other, the profile
  check first, each under a truthiness test of its input field. So a missing horoscope is
  reported as \<^verbatim>\<open>FORBIDDEN\<close>, not \<^verbatim>\<open>NOT_FOUND\<close>, when the profile reference is refused
  first; and an empty-string \<^verbatim>\<open>dailyHoroscopeId\<close>, which matches no row, is not looked
  up: the insert is issued with it, breaks the declared reference and raises the store's
  constraint error, again not \<^verbatim>\<open>NOT_FOUND\<close>.
\<close>

theorem logHoroscopeView_check_order_counterexample:
  "''H9'' \<notin> set (map dh_id (dailyHoroscopes ex_store))
   \<and> logHoroscopeView (ex_logHoroscopeView (Some ''P1'') (Some ''H9'')) (ex_ctx ''U2'')
        400 ''V1'' ex_store =
       (Inl (ActionError FORBIDDEN ''Profile not found for this user.''),
        ex_store\<lparr>accesses := [OpSelect HoroscopeProfiles]\<rparr>)
   \<and> '''' \<notin> set (map dh_id (dailyHoroscopes ex_store))
   \<and> logHoroscopeView (ex_logHoroscopeView None (Some '''')) (ex_ctx ''U1'') 400 ''V1'' ex_store =
       (Inl ForeignKeyViolation, ex_store\<lparr>accesses := [OpInsert HoroscopeViews]\<rparr>)"
  by (simp add: logHoroscopeView_def requireUser_ex_ctx ex_logHoroscopeView_def ex_store_def
        ex_horoscope_def ex_profile_def insert_HoroscopeViews_def dangling_def logged_def
        select_HoroscopeProfiles_def owned_cond limit_def)

text \<open>
  C4, with the order of the checks and for a non-empty \<^verbatim>\<open>dailyHoroscopeId\<close>. Profile
  identifiers are the strings \<^verbatim>\<open>crypto.randomUUID()\<close> returns, so no profile row has
  the empty identifier (\<open>createProfile_keeps_identifiers_nonempty\<close>). For a signed-in
  caller: a \<^verbatim>\<open>profileId\<close> whose profile is owned by a different user gives
  \<^verbatim>\<open>FORBIDDEN\<close> after the one profile lookup; a non-empty \<^verbatim>\<open>dailyHoroscopeId\<close> that
  matches no row gives \<^verbatim>\<open>NOT_FOUND\<close> when the profile check has not already failed
  (the profile reference is absent, empty or a profile of the caller); in both failures
  no table changes, so no view row is inserted; and with both references absent the
  only statement issued is the insert, which appends the view unless the generated
  identifier repeats a primary key.
\<close>

theorem logHoroscopeView_reference_checks:
  assumes "ctx_locals ctx = Some l" and "locals_user l = Some u"
    and "[] \<notin> set (map hp_id (horoscopeProfiles s))"
  shows "(\<forall>pid. lv_profileId lv = Some pid
               \<and> pid \<in> set (map hp_id (horoscopeProfiles s))
               \<and> \<not> (\<exists>r \<in> set (horoscopeProfiles s). hp_id r = pid \<and> hp_userId r = user_id u)
            \<longrightarrow> logHoroscopeView lv ctx now uuid s =
                  (Inl (ActionError FORBIDDEN ''Profile not found for this user.''),
                   s\<lparr>accesses := accesses s @ [OpSelect HoroscopeProfiles]\<rparr>))
       \<and> (\<forall>hid. lv_dailyHoroscopeId lv = Some hid \<and> hid \<noteq> []
               \<and> hid \<notin> set (map dh_id (dailyHoroscopes s))
               \<and> (lv_profileId lv = None \<or> lv_profileId lv = Some []
                    \<or> (\<exists>pid. lv_profileId lv = Some pid
                          \<and> (\<exists>r \<in> set (horoscopeProfiles s).
                                 hp_id r = pid \<and> hp_userId r = user_id u)))
            \<longrightarrow> fst (logHoroscopeView lv ctx now uuid s) =
                  Inl (ActionError NOT_FOUND ''Daily horoscope not found.'')
                \<and> horoscopeViews (snd (logHoroscopeView lv ctx now uuid s)) = horoscopeViews s
                \<and> horoscopeProfiles (snd (logHoroscopeView lv ctx now uuid s)) =
                    horoscopeProfiles s
                \<and> dailyHoroscopes (snd (logHoroscopeView lv ctx now uuid s)) =
                    dailyHoroscopes s)
       \<and> (lv_profileId lv = None \<and> lv_dailyHoroscopeId lv = None
            \<longrightarrow> logHoroscopeView lv ctx now uuid s =
                  (if uuid \<in> set (map hv_id (horoscopeViews s))
                   then (Inl (PrimaryKeyViolation HoroscopeViews),
                         s\<lparr>accesses := accesses s @ [OpInsert HoroscopeViews]\<rparr>)
                   else (Inr uuid,
                         s\<lparr>horoscopeViews := horoscopeViews s @
                              [\<lparr>hv_id = uuid, hv_profileId = None, hv_userId = user_id u,
                                hv_dailyHoroscopeId = None, hv_viewedAt = now,
                                hv_deviceInfo = lv_deviceInfo lv, hv_createdAt = now\<rparr>],
                           accesses := accesses s @ [OpInsert HoroscopeViews]\<rparr>)))"
proof -
  have a: "logHoroscopeView lv ctx now uuid s =
             (Inl (ActionError FORBIDDEN ''Profile not found for this user.''),
              s\<lparr>accesses := accesses s @ [OpSelect HoroscopeProfiles]\<rparr>)"
    if "lv_profileId lv = Some pid" and "pid \<in> set (map hp_id (horoscopeProfiles s))"
      and "\<not> (\<exists>r \<in> set (horoscopeProfiles s). hp_id r = pid \<and> hp_userId r = user_id u)"
    for pid
  proof -
    from that(2) assms(3) have "pid \<noteq> []" by force
    from logHoroscopeView_profile_refused [OF assms(1,2) that(1) this that(3)]
    show ?thesis .
  qed
  have b: "fst (logHoroscopeView lv ctx now uuid s) =
                  Inl (ActionError NOT_FOUND ''Daily horoscope not found.'')
                \<and> horoscopeViews (snd (logHoroscopeView lv ctx now uuid s)) = horoscopeViews s
                \<and> horoscopeProfiles (snd (logHoroscopeView lv ctx now uuid s)) =
                    horoscopeProfiles s
                \<and> dailyHoroscopes (snd (logHoroscopeView lv ctx now uuid s)) =
                    dailyHoroscopes s"
    if "lv_dailyHoroscopeId lv = Some hid" and "hid \<noteq> []"
      and "hid \<notin> set (map dh_id (dailyHoroscopes s))"
      and "lv_profileId lv = None \<or> lv_profileId lv = Some []
           \<or> (\<exists>pid. lv_profileId lv = Some pid
                 \<and> (\<exists>r \<in> set (horoscopeProfiles s). hp_id r = pid \<and> hp_userId r = user_id u))"
    for hid
    by (rule logHoroscopeView_horoscope_missing [OF assms(1,2) that])
  have c: "logHoroscopeView lv ctx now uuid s =
                  (if uuid \<in> set (map hv_id (horoscopeViews s))
                   then (Inl (PrimaryKeyViolation HoroscopeViews),
                         s\<lparr>accesses := accesses s @ [OpInsert HoroscopeViews]\<rparr>)
                   else (Inr uuid,
                         s\<lparr>horoscopeViews := horoscopeViews s @
                              [\<lparr>hv_id = uuid, hv_profileId = None, hv_userId = user_id u,
                                hv_dailyHoroscopeId = None, hv_viewedAt = now,
                                hv_deviceInfo = lv_deviceInfo lv, hv_createdAt = now\<rparr>],
                           accesses := accesses s @ [OpInsert HoroscopeViews]\<rparr>))"
    if "lv_profileId lv = None" and "lv_dailyHoroscopeId lv = None"
    by (rule logHoroscopeView_no_references [OF assms(1,2) that])
  from a b c show ?thesis by blast
qed

theorem logHoroscopeView_reference_checks_witness:
  "logHoroscopeView (ex_logHoroscopeView (Some ''P1'') None) (ex_ctx ''U2'') 400 ''V1'' ex_store =
     (Inl (ActionError FORBIDDEN ''Profile not found for this user.''),
      ex_store\<lparr>accesses := accesses ex_store @ [OpSelect HoroscopeProfiles]\<rparr>)
   \<and> fst (logHoroscopeView (ex_logHoroscopeView (Some ''P1'') (Some ''H9'')) (ex_ctx ''U1'')
            400 ''V1'' ex_store) =
     Inl (ActionError NOT_FOUND ''Daily horoscope not found.'')
   \<and> horoscopeViews (snd (logHoroscopeView (ex_logHoroscopeView (Some ''P1'') (Some ''H9''))
        (ex_ctx ''U1'') 400 ''V1'' ex_store)) = horoscopeViews ex_store
   \<and> logHoroscopeView (ex_logHoroscopeView None None) (ex_ctx ''U1'') 400 ''V1'' ex_store =
     (Inr ''V1'',
      ex_store\<lparr>horoscopeViews := horoscopeViews ex_store @
                  [\<lparr>hv_id = ''V1'', hv_profileId = None, hv_userId = ''U1'',
                    hv_dailyHoroscopeId = None, hv_viewedAt = 400,
                    hv_deviceInfo = Some ''phone'', hv_createdAt = 400\<rparr>],
                accesses := accesses ex_store @ [OpInsert HoroscopeViews]\<rparr>)"
proof -
  have c1: "ctx_locals (ex_ctx ''U1'') = Some \<lparr>locals_user = Some \<lparr>user_id = ''U1''\<rparr>\<rparr>"
    by (simp add: ex_ctx_def)
  have u1: "locals_user \<lparr>locals_user = Some \<lparr>user_id = ''U1''\<rparr>\<rparr> = Some \<lparr>user_id = ''U1''\<rparr>"
    by simp
  have c2: "ctx_locals (ex_ctx ''U2'') = Some \<lparr>locals_user = Some \<lparr>user_id = ''U2''\<rparr>\<rparr>"
    by (simp add: ex_ctx_def)
  have u2: "locals_user \<lparr>locals_user = Some \<lparr>user_id = ''U2''\<rparr>\<rparr> = Some \<lparr>user_id = ''U2''\<rparr>"
    by simp
  have ids: "[] \<notin> set (map hp_id (horoscopeProfiles ex_store))"
    by (simp add: ex_store_def ex_profile_def)
  have foreign: "lv_profileId (ex_logHoroscopeView (Some ''P1'') None) = Some ''P1''
      \<and> ''P1'' \<in> set (map hp_id (horoscopeProfiles ex_store))
      \<and> \<not> (\<exists>r \<in> set (horoscopeProfiles ex_store).
               hp_id r = ''P1'' \<and> hp_userId r = user_id \<lparr>user_id = ''U2''\<rparr>)"
    by (simp add: ex_logHoroscopeView_def ex_store_def ex_profile_def)
  have missing: "lv_dailyHoroscopeId (ex_logHoroscopeView (Some ''P1'') (Some ''H9'')) = Some ''H9''
      \<and> ''H9'' \<noteq> []
      \<and> ''H9'' \<notin> set (map dh_id (dailyHoroscopes ex_store))
      \<and> (lv_profileId (ex_logHoroscopeView (Some ''P1'') (Some ''H9'')) = None
          \<or> lv_profileId (ex_logHoroscopeView (Some ''P1'') (Some ''H9'')) = Some []
          \<or> (\<exists>pid. lv_profileId (ex_logHoroscopeView (Some ''P1'') (Some ''H9'')) = Some pid
                \<and> (\<exists>r \<in> set (horoscopeProfiles ex_store).
                       hp_id r = pid \<and> hp_userId r = user_id \<lparr>user_id = ''U1''\<rparr>)))"
    by (simp add: ex_logHoroscopeView_def ex_store_def ex_profile_def ex_horoscope_def)
  have neither: "lv_profileId (ex_logHoroscopeView None None) = None
      \<and> lv_dailyHoroscopeId (ex_logHoroscopeView None None) = None"
    by (simp add: ex_logHoroscopeView_def)
  have fresh: "''V1'' \<notin> set (map hv_id (horoscopeViews ex_store))"
    by (simp add: ex_store_def)
  from logHoroscopeView_reference_checks
         [OF c2 u2 ids, of "ex_logHoroscopeView (Some ''P1'') None" 400 "''V1''"] foreign
  have first: "logHoroscopeView (ex_logHoroscopeView (Some ''P1'') None) (ex_ctx ''U2'') 400 ''V1''
                 ex_store =
     (Inl (ActionError FORBIDDEN ''Profile not found for this user.''),
      ex_store\<lparr>accesses := accesses ex_store @ [OpSelect HoroscopeProfiles]\<rparr>)"
    by blast
  from logHoroscopeView_reference_checks
         [OF c1 u1 ids, of "ex_logHoroscopeView (Some ''P1'') (Some ''H9'')" 400 "''V1''"]
       missing
  have second: "fst (logHoroscopeView (ex_logHoroscopeView (Some ''P1'') (Some ''H9''))
                  (ex_ctx ''U1'') 400 ''V1'' ex_store) =
     Inl (ActionError NOT_FOUND ''Daily horoscope not found.'')
   \<and> horoscopeViews (snd (logHoroscopeView (ex_logHoroscopeView (Some ''P1'') (Some ''H9''))
        (ex_ctx ''U1'') 400 ''V1'' ex_store)) = horoscopeViews ex_store"
    by blast
  from logHoroscopeView_reference_checks
         [OF c1 u1 ids, of "ex_logHoroscopeView None None" 400 "''V1''"] neither
  have "logHoroscopeView (ex_logHoroscopeView None None) (ex_ctx ''U1'') 400 ''V1'' ex_store =
     (if ''V1'' \<in> set (map hv_id (horoscopeViews ex_store))
      then (Inl (PrimaryKeyViolation HoroscopeViews),
            ex_store\<lparr>accesses := accesses ex_store @ [OpInsert HoroscopeViews]\<rparr>)
      else (Inr ''V1'',
      ex_store\<lparr>horoscopeViews := horoscopeViews ex_store @
                  [\<lparr>hv_id = ''V1'', hv_profileId = None,
                    hv_userId = user_id \<lparr>user_id = ''U1''\<rparr>,
                    hv_dailyHoroscopeId = None, hv_viewedAt = 400,
                    hv_deviceInfo = lv_deviceInfo (ex_logHoroscopeView None None),
                    hv_createdAt = 400\<rparr>],
                accesses := accesses ex_store @ [OpInsert HoroscopeViews]\<rparr>))"
    by blast
  with fresh have third:
    "logHoroscopeView (ex_logHoroscopeView None None) (ex_ctx ''U1'') 400 ''V1'' ex_store =
     (Inr ''V1'',
      ex_store\<lparr>horoscopeViews := horoscopeViews ex_store @
                  [\<lparr>hv_id = ''V1'', hv_profileId = None, hv_userId = ''U1'',
                    hv_dailyHoroscopeId = None, hv_viewedAt = 400,
                    hv_deviceInfo = Some ''phone'', hv_createdAt = 400\<rparr>],
                accesses := accesses ex_store @ [OpInsert HoroscopeViews]\<rparr>)"
    by (simp add: ex_logHoroscopeView_def)
  from first second third show ?thesis by blast
qed




end
